theory Spec2Isabelle
  imports Complex_Main "HOL-Library.Sublist" "HOL-Library.AList"
begin

section \<open>JSON values and JavaScript strings\<close>

text \<open>
  The hook receives parsed JSON. A value is null, a boolean, a finite number, a string,
  an array or an object; an object is an association list in the order of its keys,
  read with \<open>map_of\<close>, written with \<open>AList.update\<close> (in place, or at the end for a new
  key) and \<open>AList.delete\<close>; a missing key is JavaScript's \<open>undefined\<close>. Only the zero of a
  number matters below, for truthiness. Strings are lists of characters with codes
  below 256.
\<close>

datatype jsval =
    JNull
  | JBool bool
  | JNum rat
  | JStr string
  | JArr "jsval list"
  | JObj "(string \<times> jsval) list"

type_synonym jsobj = "(string \<times> jsval) list"

text \<open>JavaScript truthiness: \<open>null\<close>, \<open>false\<close>, \<open>0\<close> and \<open>""\<close> are falsy, arrays and objects truthy.\<close>

fun truthy :: "jsval \<Rightarrow> bool" where
  "truthy JNull = False"
| "truthy (JBool b) = b"
| "truthy (JNum r) = (r \<noteq> 0)"
| "truthy (JStr s) = (s \<noteq> [])"
| "truthy (JArr xs) = True"
| "truthy (JObj kvs) = True"

text \<open>Truthiness of a possibly \<open>undefined\<close> value, and of an optional string.\<close>

fun truthy_opt :: "jsval option \<Rightarrow> bool" where
  "truthy_opt None = False"
| "truthy_opt (Some v) = truthy v"

fun truthy_str :: "string option \<Rightarrow> bool" where
  "truthy_str None = False"
| "truthy_str (Some s) = (s \<noteq> [])"

text \<open>\<open>a || d\<close> on an optional string \<open>a\<close> and a string \<open>d\<close>.\<close>

fun or_default :: "string option \<Rightarrow> string \<Rightarrow> string" where
  "or_default None d = d"
| "or_default (Some s) d = (if s = [] then d else s)"

text \<open>Property access \<open>v?.k\<close> for a key that no prototype defines.\<close>

fun get_prop :: "jsval option \<Rightarrow> string \<Rightarrow> jsval option" where
  "get_prop (Some (JObj kvs)) k = map_of kvs k"
| "get_prop _ k = None"

text \<open>\<open>typeof v === 'string'\<close>, returning the string.\<close>

fun as_string :: "jsval option \<Rightarrow> string option" where
  "as_string (Some (JStr s)) = Some s"
| "as_string _ = None"

text \<open>\<open>String.prototype.trim\<close>: the white space and line terminators below code 256.\<close>

definition is_ws :: "char \<Rightarrow> bool" where
  "is_ws c = (c \<in> {CHR 0x09, CHR 0x0A, CHR 0x0B, CHR 0x0C, CHR 0x0D, CHR 0x20, CHR 0xA0})"

definition trim :: "string \<Rightarrow> string" where
  "trim s = rev (dropWhile is_ws (rev (dropWhile is_ws s)))"

text \<open>The first position at which \<open>pat\<close> occurs in \<open>s\<close>, if any.\<close>

fun find_index_of :: "string \<Rightarrow> string \<Rightarrow> nat option" where
  "find_index_of [] pat = (if pat = [] then Some 0 else None)"
| "find_index_of (c # cs) pat =
     (if prefix pat (c # cs) then Some 0 else map_option Suc (find_index_of cs pat))"

text \<open>\<open>s.indexOf(pat)\<close>, with its result \<open>-1\<close> when there is no occurrence.\<close>

definition indexOf :: "string \<Rightarrow> string \<Rightarrow> int" where
  "indexOf s pat = (case find_index_of s pat of None \<Rightarrow> - 1 | Some i \<Rightarrow> int i)"

text \<open>\<open>s.indexOf(pat, start)\<close>: the start is clamped to the string.\<close>

definition indexOf_from :: "string \<Rightarrow> string \<Rightarrow> int \<Rightarrow> int" where
  "indexOf_from s pat start =
     (let k = min (nat start) (length s)
      in case find_index_of (drop k s) pat of None \<Rightarrow> - 1 | Some i \<Rightarrow> int (k + i))"

definition includes_str :: "string \<Rightarrow> string \<Rightarrow> bool" where
  "includes_str s pat = (find_index_of s pat \<noteq> None)"

definition endsWith :: "string \<Rightarrow> string \<Rightarrow> bool" where
  "endsWith s pat = suffix pat s"

text \<open>\<open>s.substring(a)\<close> and \<open>s.substring(a, b)\<close>: indices are clamped, and swapped when \<open>a > b\<close>.\<close>

definition substring_from :: "string \<Rightarrow> int \<Rightarrow> string" where
  "substring_from s a = drop (nat a) s"

definition substring :: "string \<Rightarrow> int \<Rightarrow> int \<Rightarrow> string" where
  "substring s a b =
     (let a' = min (nat a) (length s); b' = min (nat b) (length s)
      in take (max a' b' - min a' b') (drop (min a' b') s))"

text \<open>\<open>s.replace(/_/g, ' ')\<close>.\<close>

definition replace_underscores :: "string \<Rightarrow> string" where
  "replace_underscores s = map (\<lambda>c. if c = CHR ''_'' then CHR '' '' else c) s"

text \<open>A template literal prints an \<open>undefined\<close> operand as the word.\<close>

fun template_opt :: "string option \<Rightarrow> string" where
  "template_opt None = ''undefined''"
| "template_opt (Some s) = s"

text \<open>A non-negative integer printed in decimal, as a template literal prints it.\<close>

definition digit_char :: "nat \<Rightarrow> char" where
  "digit_char d = ''0123456789'' ! d"

fun string_of_nat :: "nat \<Rightarrow> string" where
  "string_of_nat n =
     (if n < 10 then [digit_char n] else string_of_nat (n div 10) @ [digit_char (n mod 10)])"

declare string_of_nat.simps [simp del]

section \<open>The data of the chat hook (useChat.ts)\<close>

datatype role = User | Assistant | System | Milestone | ContextInfo

record ReportSection =
  title :: string
  section_content :: string

record GeneratedQuery =
  gq_objective :: string
  gq_query :: string

record ChatMessage =
  msg_id :: string
  role :: role
  content :: string
  reasoning :: "string option"
  reportSections :: "ReportSection list option"
  generatedQueries :: "GeneratedQuery list option"
  step :: "string option"

type_synonym row = "(string \<times> jsval) list"

record QueryResult =
  objective :: string
  query :: string
  dataframe :: "row list"
  error :: "string option"
  platform :: "string option"

text \<open>
  One element of \<open>executed_queries\<close>. The interface declares the four fields, the code
  guards each of them against absence, so each is optional here.
\<close>

record ExecutedQuery =
  eq_platform :: "string option"
  eq_objective :: "string option"
  eq_query :: "string option"
  eq_data :: "row list option"

record WebSocketMessage =
  ws_type :: string
  ws_user_id :: "string option"
  ws_step :: "string option"
  ws_status :: "string option"
  ws_details :: "string option"
  ws_reasoning :: "string option"
  ws_insight :: "string option"
  ws_report_sections :: "ReportSection list option"
  ws_graph_suggestions :: "jsobj list option"
  ws_message :: "string option"
  ws_generated_queries :: "GeneratedQuery list option"
  ws_objective :: "string option"
  ws_query :: "string option"
  ws_data :: "row list option"
  ws_error :: "string option"
  ws_content :: "string option"
  ws_platform :: "string option"
  ws_executed_queries :: "ExecutedQuery list option"

text \<open>The six pieces of React state of the hook, as one record.\<close>

record ChatState =
  userId :: "string option"
  messages :: "ChatMessage list"
  queryResults :: "QueryResult list"
  currentStatus :: "string option"
  isProcessing :: bool
  graphSuggestions :: "jsobj list"

definition initialState :: ChatState where
  "initialState =
     \<lparr>userId = None,
      messages =
        [\<lparr>msg_id = ''init_message'', role = System,
          content = ''Hello! I am your Insight Assistant. Ask me to analyze your data or suggest optimizations.'',
          reasoning = None, reportSections = None, generatedQueries = None, step = None\<rparr>],
      queryResults = [], currentStatus = None, isProcessing = False, graphSuggestions = []\<rparr>"

text \<open>
  \<open>generateId\<close> reads the clock and a random number; every operation below takes the
  identifiers it would generate as arguments.
\<close>

definition newMessage :: "string \<Rightarrow> role \<Rightarrow> string \<Rightarrow> ChatMessage" where
  "newMessage i r c =
     \<lparr>msg_id = i, role = r, content = c, reasoning = None, reportSections = None,
      generatedQueries = None, step = None\<rparr>"

definition addMessageToChat ::
  "string \<Rightarrow> role \<Rightarrow> string \<Rightarrow> (ChatMessage \<Rightarrow> ChatMessage) \<Rightarrow> ChatState \<Rightarrow> ChatState" where
  "addMessageToChat i r c additionalFields st =
     st\<lparr>messages := messages st @ [additionalFields (newMessage i r c)]\<rparr>"

subsection \<open>handleExecutedQueries\<close>

text \<open>
  The \<open>forEach\<close> loop with its index, the array \<open>newQueryResults\<close> it pushes to, and the
  indices for which it prints the warning. \<open>if (executedQuery.data)\<close> tests truthiness;
  an array, empty or not, is truthy.
\<close>

fun executedQueriesLoop ::
  "nat \<Rightarrow> ExecutedQuery list \<Rightarrow> QueryResult list \<times> nat list \<Rightarrow> QueryResult list \<times> nat list" where
  "executedQueriesLoop index [] acc = acc"
| "executedQueriesLoop index (executedQuery # rest) (newQueryResults, warned) =
     executedQueriesLoop (index + 1) rest
       (case eq_data executedQuery of
          Some d \<Rightarrow>
            (newQueryResults @
               [\<lparr>objective = or_default (eq_objective executedQuery)
                               (''Executed Query '' @ string_of_nat (index + 1)),
                 query = or_default (eq_query executedQuery) ''N/A'',
                 dataframe = d,
                 error = None,
                 platform = eq_platform executedQuery\<rparr>],
             warned)
        | None \<Rightarrow> (newQueryResults, warned @ [index]))"

definition handleExecutedQueries ::
  "ExecutedQuery list option \<Rightarrow> ChatState \<Rightarrow> bool \<times> ChatState" where
  "handleExecutedQueries executedQueries st =
     (case executedQueries of
        Some eqs \<Rightarrow> (True, st\<lparr>queryResults := fst (executedQueriesLoop 0 eqs ([], []))\<rparr>)
      | None \<Rightarrow> (False, st))"

subsection \<open>handleGraphSuggestions\<close>

text \<open>
  The function mapped over the backend's suggestions: \<open>columns\<close> is taken out of the
  object, \<open>objective\<close> is defaulted, and of the nested roles \<open>x\<close> and \<open>y\<close> are copied to
  \<open>x_axis\<close> and \<open>y_axis\<close> when truthy.
\<close>

definition mapSuggestion :: "jsobj \<Rightarrow> jsobj" where
  "mapSuggestion bs =
     (let columns = map_of bs ''columns'';
          restOfSuggestion = AList.delete ''columns'' bs;
          mapped0 = AList.update ''objective''
                      (case map_of restOfSuggestion ''objective'' of
                         Some v \<Rightarrow> if truthy v then v else JStr ''Unknown Objective''
                       | None \<Rightarrow> JStr ''Unknown Objective'')
                      restOfSuggestion;
          mapped1 = (case get_prop columns ''x'' of
                       Some v \<Rightarrow> if truthy v then AList.update ''x_axis'' v mapped0 else mapped0
                     | None \<Rightarrow> mapped0);
          mapped2 = (case get_prop columns ''y'' of
                       Some v \<Rightarrow> if truthy v then AList.update ''y_axis'' v mapped1 else mapped1
                     | None \<Rightarrow> mapped1)
      in mapped2)"

definition handleGraphSuggestions :: "jsobj list option \<Rightarrow> ChatState \<Rightarrow> ChatState" where
  "handleGraphSuggestions backendSuggestions st =
     (case backendSuggestions of
        Some (b # bs) \<Rightarrow> st\<lparr>graphSuggestions := map mapSuggestion (b # bs)\<rparr>
      | _ \<Rightarrow> st\<lparr>graphSuggestions := []\<rparr>)"

subsection \<open>The cases of the incoming-message switch\<close>

text \<open>
  The check mark that opens the milestone texts (U+2705), which has no code below 256
  and stands here as its three UTF-8 bytes, and the two characters that the templates
  of the source escape.
\<close>

definition check_mark :: string where
  "check_mark = [CHR 0xE2, CHR 0x9C, CHR 0x85]"

definition backslash :: char where
  "backslash = CHR 0x5C"

definition backtick :: char where
  "backtick = CHR 0x60"

text \<open>\<open>step?.replace(/_/g, ' ')\<close> inside a template literal.\<close>

definition spaced :: "string option \<Rightarrow> string" where
  "spaced s = template_opt (map_option replace_underscores s)"

text \<open>\<open>step?.includes(w)\<close> and \<open>step?.endsWith(w)\<close> as conditions.\<close>

fun opt_includes :: "string option \<Rightarrow> string \<Rightarrow> bool" where
  "opt_includes None w = False"
| "opt_includes (Some s) w = includes_str s w"

fun opt_endsWith :: "string option \<Rightarrow> string \<Rightarrow> bool" where
  "opt_endsWith None w = False"
| "opt_endsWith (Some s) w = endsWith s w"

definition on_connection_established :: "WebSocketMessage \<Rightarrow> ChatState \<Rightarrow> ChatState" where
  "on_connection_established m st =
     (if truthy_str (ws_user_id m) then st\<lparr>userId := ws_user_id m\<rparr> else st)"

definition on_status :: "string \<Rightarrow> WebSocketMessage \<Rightarrow> ChatState \<Rightarrow> ChatState" where
  "on_status i m st =
     (let step = ws_step m; status = ws_status m;
          statusText = ''**'' @ spaced step @ ''**: '' @ spaced status @
                       (if truthy_str (ws_details m) then '' - '' @ template_opt (ws_details m) else []);
          st1 = st\<lparr>currentStatus := Some statusText\<rparr>
      in if opt_endsWith step ''workflow_end'' then st1\<lparr>currentStatus := None, isProcessing := False\<rparr>
         else if status = Some ''completed'' then
           (let (milestoneContent, milestoneQueries) =
                  (case (if opt_includes step ''generate'' \<and> opt_includes step ''queries''
                         then ws_generated_queries m else None) of
                     Some qs \<Rightarrow>
                       (check_mark @ '' Query Generation Finished ('' @ string_of_nat (length qs) @ '' ''
                          @ (if length qs = 1 then ''query'' else ''queries'') @ '')'',
                        Some qs)
                   | None \<Rightarrow>
                       if opt_includes step ''execute'' \<and> opt_includes step ''queries''
                       then (check_mark @ '' Query Execution Finished'', None)
                       else if opt_includes step ''classification''
                       then (check_mark @ '' Classification Finished'', None)
                       else (check_mark @ '' '' @ spaced step @ '' Finished'', None))
            in if opt_includes step ''generate'' \<or> opt_includes step ''execute''
                  \<or> opt_includes step ''classification''
               then st1\<lparr>messages := messages st1 @
                      [\<lparr>msg_id = i, role = Milestone, content = milestoneContent, reasoning = None,
                        reportSections = None, generatedQueries = milestoneQueries, step = step\<rparr>]\<rparr>
               else st1)
         else st1)"

text \<open>\<open>typeof content === 'string' && content.trim() !== ''\<close>.\<close>

fun valid_content :: "string option \<Rightarrow> bool" where
  "valid_content None = False"
| "valid_content (Some c) = (trim c \<noteq> [])"

definition on_classifier_info :: "string \<Rightarrow> WebSocketMessage \<Rightarrow> ChatState \<Rightarrow> ChatState" where
  "on_classifier_info i m st =
     (if valid_content (ws_content m)
      then (addMessageToChat i Assistant (template_opt (ws_content m)) (\<lambda>e. e) st)
             \<lparr>currentStatus := Some ''Planning workflow...''\<rparr>
      else st)"

definition on_classifier_answer :: "string \<Rightarrow> WebSocketMessage \<Rightarrow> ChatState \<Rightarrow> ChatState" where
  "on_classifier_answer i m st =
     (if valid_content (ws_content m)
      then (addMessageToChat i Assistant (template_opt (ws_content m)) (\<lambda>e. e) st)
             \<lparr>currentStatus := None, isProcessing := False\<rparr>
      else st\<lparr>currentStatus := None, isProcessing := False\<rparr>)"

text \<open>
  \<open>prev.findLastIndex(p)\<close>: the greatest index whose element satisfies \<open>p\<close>; \<open>None\<close>
  stands for \<open>-1\<close>.
\<close>

fun findLastIndex :: "('a \<Rightarrow> bool) \<Rightarrow> 'a list \<Rightarrow> nat option" where
  "findLastIndex p [] = None"
| "findLastIndex p (x # xs) =
     (case findLastIndex p xs of
        Some j \<Rightarrow> Some (Suc j)
      | None \<Rightarrow> if p x then Some 0 else None)"

definition on_reasoning_summary :: "WebSocketMessage \<Rightarrow> ChatState \<Rightarrow> ChatState" where
  "on_reasoning_summary m st =
     (if truthy_str (ws_step m) \<and> truthy_str (ws_reasoning m) then
        (let reasoningText = ''**Reasoning:**'' @ [CHR 0x0A] @ template_opt (ws_reasoning m);
             prev = messages st
         in case findLastIndex (\<lambda>e. role e = Milestone \<and> step e = ws_step m) prev of
              Some lastMilestoneIndex \<Rightarrow>
                st\<lparr>messages := prev[lastMilestoneIndex :=
                                    (prev ! lastMilestoneIndex)\<lparr>reasoning := Some reasoningText\<rparr>]\<rparr>
            | None \<Rightarrow> st)
      else st)"

text \<open>The reasoning of a final entry; its template holds a backslash followed by an n.\<close>

definition finalReasoning :: "string option \<Rightarrow> string option" where
  "finalReasoning r =
     (if truthy_str r then Some (''**Final Reasoning:**'' @ [backslash, CHR ''n''] @ template_opt r)
      else None)"

definition on_final_insight :: "string \<Rightarrow> WebSocketMessage \<Rightarrow> ChatState \<Rightarrow> ChatState" where
  "on_final_insight i m st =
     (let insightContent = or_default (ws_insight m) ''No final insight received.'';
          insightGraphSuggestions = (case ws_graph_suggestions m of Some gs \<Rightarrow> gs | None \<Rightarrow> []);
          st1 = addMessageToChat i Assistant insightContent
                  (\<lambda>e. e\<lparr>reasoning := finalReasoning (ws_reasoning m), step := ws_step m\<rparr>) st;
          st2 = snd (handleExecutedQueries (ws_executed_queries m) st1);
          st3 = handleGraphSuggestions (Some insightGraphSuggestions) st2
      in st3\<lparr>currentStatus := None, isProcessing := False\<rparr>)"

definition on_final_recommendation :: "string \<Rightarrow> WebSocketMessage \<Rightarrow> ChatState \<Rightarrow> ChatState" where
  "on_final_recommendation i m st =
     (let reportSections' = ws_report_sections m;
          recommendationGraphSuggestions = ws_graph_suggestions m;
          st1 = (case recommendationGraphSuggestions of
                   Some gs \<Rightarrow> st\<lparr>graphSuggestions := gs\<rparr>
                 | None \<Rightarrow> st\<lparr>graphSuggestions := []\<rparr>);
          st2 = addMessageToChat i Assistant
                  (case reportSections' of
                     Some secs \<Rightarrow> ''Optimization report generated with '' @ string_of_nat (length secs)
                                    @ '' sections.''
                   | None \<Rightarrow> ''Optimization report received.'')
                  (\<lambda>e. e\<lparr>reportSections := reportSections',
                          reasoning := finalReasoning (ws_reasoning m), step := ws_step m\<rparr>) st1;
          (processed, st3) = handleExecutedQueries (ws_executed_queries m) st2;
          st4 = (if \<not> processed then st3\<lparr>queryResults := []\<rparr> else st3);
          st5 = handleGraphSuggestions recommendationGraphSuggestions st4
      in st5\<lparr>currentStatus := None, isProcessing := False\<rparr>)"

definition on_query_result :: "WebSocketMessage \<Rightarrow> ChatState \<Rightarrow> ChatState" where
  "on_query_result m st =
     (let queryResultData =
            \<lparr>objective = or_default (ws_objective m) ''Unknown Objective'',
             query = or_default (ws_query m) ''Unknown Query'',
             dataframe = (case ws_data m of Some d \<Rightarrow> d | None \<Rightarrow> []),
             error = ws_error m,
             platform = ws_platform m\<rparr>;
          prev = queryResults st;
          exists = list_ex (\<lambda>qr. objective qr = objective queryResultData
                                 \<and> query qr = query queryResultData
                                 \<and> platform qr = platform queryResultData) prev
      in if \<not> exists then st\<lparr>queryResults := prev @ [queryResultData]\<rparr> else st)"

definition on_error :: "string \<Rightarrow> WebSocketMessage \<Rightarrow> ChatState \<Rightarrow> ChatState" where
  "on_error i m st =
     (let errorMsg = ''**Error ('' @ or_default (ws_step m) ''Unknown Step'' @ ''):** ''
                     @ template_opt (ws_message m)
                     @ (if truthy_str (ws_details m)
                        then [backslash, CHR ''n'', backslash, backtick, backslash, backtick,
                              backslash, backtick, backslash, CHR ''n'']
                             @ template_opt (ws_details m)
                             @ [backslash, backtick, backslash, backtick, backslash, backtick]
                        else [])
      in (addMessageToChat i System errorMsg (\<lambda>e. e) st)\<lparr>currentStatus := None, isProcessing := False\<rparr>)"

text \<open>
  The effect run for one received message: the switch on its \<open>type\<close>. \<open>i\<close> is the
  identifier \<open>generateId\<close> returns if the case appends a transcript entry.
\<close>

definition handleMessage :: "string \<Rightarrow> WebSocketMessage \<Rightarrow> ChatState \<Rightarrow> ChatState" where
  "handleMessage i m st =
     (if ws_type m = ''connection_established'' then on_connection_established m st
      else if ws_type m = ''status'' then on_status i m st
      else if ws_type m = ''classifier_info'' then on_classifier_info i m st
      else if ws_type m = ''classifier_answer'' then on_classifier_answer i m st
      else if ws_type m = ''reasoning_summary'' then on_reasoning_summary m st
      else if ws_type m = ''final_insight'' then on_final_insight i m st
      else if ws_type m = ''final_recommendation'' then on_final_recommendation i m st
      else if ws_type m = ''query_result'' then on_query_result m st
      else if ws_type m = ''routing_decision'' then st
      else if ws_type m = ''error'' then on_error i m st
      else st)"

subsection \<open>The callbacks of the channel\<close>

definition onOpen :: "ChatState \<Rightarrow> ChatState" where
  "onOpen st = st\<lparr>currentStatus := None, isProcessing := False\<rparr>"

definition onClose :: "ChatState \<Rightarrow> ChatState" where
  "onClose st = st\<lparr>userId := None, currentStatus := Some ''Connection closed.'', isProcessing := False\<rparr>"

definition onError :: "ChatState \<Rightarrow> ChatState" where
  "onError st = st\<lparr>userId := None, currentStatus := Some ''Connection error.'', isProcessing := False\<rparr>"

subsection \<open>parseUserMessageWithContext and sendMessage\<close>

definition displayContextStartMarker :: string where
  "displayContextStartMarker = ''---DISPLAY_CONTEXT START---''"

definition displayContextEndMarker :: string where
  "displayContextEndMarker = ''---DISPLAY_CONTEXT END---''"

definition queryStartMarker :: string where
  "queryStartMarker = ''---QUERY START---''"

text \<open>
  \<open>cid\<close> is the identifier generated for the context entry. No string operation of the
  \<open>try\<close> block throws, so its \<open>catch\<close> branch has no counterpart.
\<close>

definition parseUserMessageWithContext :: "string \<Rightarrow> string \<Rightarrow> string \<times> ChatMessage option" where
  "parseUserMessageWithContext cid message =
     (if includes_str message displayContextStartMarker \<and> includes_str message queryStartMarker then
        (let queryStartIndex = indexOf message queryStartMarker + int (length queryStartMarker);
             userMessageContent = trim (substring_from message queryStartIndex);
             displayContextStartIndex =
               indexOf message displayContextStartMarker + int (length displayContextStartMarker);
             displayContextEndIndex =
               indexOf_from message displayContextEndMarker displayContextStartIndex
         in if displayContextEndIndex \<noteq> - 1 \<and> displayContextEndIndex > displayContextStartIndex then
              (let displayContextString =
                     trim (substring message displayContextStartIndex displayContextEndIndex)
               in if displayContextString \<noteq> []
                  then (userMessageContent, Some (newMessage cid ContextInfo displayContextString))
                  else (userMessageContent, None))
            else (userMessageContent, None))
      else (message, None))"

datatype ReadyState = CONNECTING | OPEN | CLOSING | CLOSED | UNINSTANTIATED

text \<open>The body of the POST request to \<open>/api/frontend/chat\<close>.\<close>

record ChatRequest =
  req_message :: string
  req_userId :: string

text \<open>
  The synchronous part of \<open>sendMessage\<close>, up to the \<open>fetch\<close>: the next state and the
  request issued, if any. \<open>readyState\<close> is what the channel reports; \<open>id1\<close> and \<open>id2\<close> are
  the identifiers generated, in this order.
\<close>

definition sendMessage ::
  "ReadyState \<Rightarrow> string \<Rightarrow> string \<Rightarrow> string \<Rightarrow> ChatState \<Rightarrow> ChatState \<times> ChatRequest option" where
  "sendMessage readyState id1 id2 message st =
     (if readyState \<noteq> OPEN then
        ((addMessageToChat id1 System
            ''Error: Cannot connect to assistant. Backend connection is closed.'' (\<lambda>e. e) st)
           \<lparr>isProcessing := False\<rparr>, None)
      else case (if truthy_str (userId st) then userId st else None) of
        None \<Rightarrow>
          ((addMessageToChat id1 System
              ''Error: Connection established, but user ID not received yet. Please wait a moment and try again.''
              (\<lambda>e. e) st)
             \<lparr>isProcessing := False\<rparr>, None)
      | Some uid \<Rightarrow>
          if trim message = [] then (st, None)
          else
            (let (userMessageContent, contextMessageToAdd) = parseUserMessageWithContext id1 message;
                 newMessages = (case contextMessageToAdd of Some c \<Rightarrow> [c] | None \<Rightarrow> [])
                               @ [newMessage id2 User userMessageContent]
             in (st\<lparr>messages := messages st @ newMessages, queryResults := [],
                     graphSuggestions := [], currentStatus := Some ''Thinking...'',
                     isProcessing := True\<rparr>,
                 Some \<lparr>req_message = message, req_userId = uid\<rparr>)))"

text \<open>
  What the \<open>fetch\<close> comes back with: a response that is not ok, with the \<open>detail\<close> and
  \<open>error\<close> of its body when the body parses, its status and status text; an ok response
  with the \<open>response\<close> and \<open>tool_called\<close> of the acknowledgement; or a rejected promise
  with the message of the error when it is an \<open>Error\<close>.
\<close>

datatype FetchOutcome =
    NotOk "(string option \<times> string option) option" nat string
  | Ok "string option" bool
  | Rejected "string option"

definition handleFetchOutcome :: "string \<Rightarrow> FetchOutcome \<Rightarrow> ChatState \<Rightarrow> ChatState" where
  "handleFetchOutcome i outcome st =
     (case outcome of
        NotOk body status statusText \<Rightarrow>
          (let (detail, err) = (case body of
                                  Some b \<Rightarrow> b
                                | None \<Rightarrow> (None, Some (''HTTP error '' @ string_of_nat status)));
               errorContent = ''Error sending message to agent: ''
                              @ (if truthy_str detail then template_opt detail
                                 else if truthy_str err then template_opt err else statusText)
           in (addMessageToChat i System errorContent (\<lambda>e. e) st)
                \<lparr>currentStatus := None, isProcessing := False\<rparr>)
      | Ok response tool_called \<Rightarrow>
          (let st1 = (if truthy_str response
                      then addMessageToChat i Assistant (template_opt response) (\<lambda>e. e) st else st)
           in if tool_called then st1\<lparr>currentStatus := Some ''Agent processing workflow...''\<rparr>
              else st1\<lparr>currentStatus := None, isProcessing := False\<rparr>)
      | Rejected msg \<Rightarrow>
          (let errorText = (case msg of Some t \<Rightarrow> t | None \<Rightarrow> ''Network error connecting to the agent.'')
           in (addMessageToChat i System (''Error: '' @ errorText) (\<lambda>e. e) st)
                \<lparr>currentStatus := None, isProcessing := False\<rparr>))"

subsection \<open>The operations of the state machine\<close>

datatype operation =
    Receive string WebSocketMessage
  | Send ReadyState string string string
  | Fetched string FetchOutcome
  | Opened
  | Closed
  | Errored

fun apply_operation :: "operation \<Rightarrow> ChatState \<Rightarrow> ChatState" where
  "apply_operation (Receive i m) st = handleMessage i m st"
| "apply_operation (Send readyState id1 id2 message) st = fst (sendMessage readyState id1 id2 message st)"
| "apply_operation (Fetched i outcome) st = handleFetchOutcome i outcome st"
| "apply_operation Opened st = onOpen st"
| "apply_operation Closed st = onClose st"
| "apply_operation Errored st = onError st"

section \<open>The chart suggestion handed to the viewer (DataExplorer.tsx)\<close>

text \<open>
  \<open>finalGraphSuggestionForViewer\<close> returns \<open>null\<close>, an image suggestion or a suggestion
  with a \<open>columns\<close> property. The latter is the object literal of the source: its \<open>type\<close>,
  \<open>title\<close>, \<open>description\<close> and \<open>columns\<close>, and in \<open>pc_rest\<close> the other properties that the
  spread of \<open>restOfChatSuggestion\<close> adds.
\<close>

record E2BImageGraphSuggestion =
  img_title :: "jsval option"
  img_description :: "jsval option"
  image_base64 :: "jsval option"
  original_suggestion :: "jsval option"

text \<open>
  The \<open>columns\<close> of the object handed to the viewer. The literal has \<open>columns: {}\<close> and
  then the spread of \<open>restOfChatSuggestion\<close>, so a \<open>columns\<close> property left in the raw
  suggestion replaces the empty object, whatever its value: an object, an array (an
  object too, which then takes the roles as named properties next to its elements), or
  \<open>null\<close> or a primitive, which are carried as they are.
\<close>

datatype columns_value =
    ColumnsObject jsobj
  | ColumnsArray "jsval list" jsobj
  | ColumnsOther jsval

record PlotlyCompatibleSuggestion =
  pc_type :: "jsval option"
  pc_title :: "string option"
  pc_description :: "string option"
  pc_columns :: columns_value
  pc_rest :: jsobj

datatype ViewerSuggestion =
    Image E2BImageGraphSuggestion
  | Plotly PlotlyCompatibleSuggestion

text \<open>
  The component is a module, hence strict code: assigning a property of \<open>null\<close> or of a
  primitive throws a TypeError, which leaves \<open>useMemo\<close> and the render.
\<close>

datatype viewer_error = TypeError

definition destructuredKeys :: "string list" where
  "destructuredKeys =
     [''x_axis'', ''y_axis'', ''names'', ''values'', ''color_column'', ''chart_type'', ''title'',
      ''description'', ''type'']"

definition initialColumns :: "jsobj \<Rightarrow> columns_value" where
  "initialColumns restOfChatSuggestion =
     (case map_of restOfChatSuggestion ''columns'' of
        None \<Rightarrow> ColumnsObject []
      | Some (JObj kvs) \<Rightarrow> ColumnsObject kvs
      | Some (JArr xs) \<Rightarrow> ColumnsArray xs []
      | Some v \<Rightarrow> ColumnsOther v)"

text \<open>\<open>plotlyCompatibleSuggestion.columns[k] = w\<close>.\<close>

fun setRole :: "string \<Rightarrow> jsval \<Rightarrow> columns_value \<Rightarrow> viewer_error + columns_value" where
  "setRole k w (ColumnsObject kvs) = Inr (ColumnsObject (AList.update k w kvs))"
| "setRole k w (ColumnsArray xs props) = Inr (ColumnsArray xs (AList.update k w props))"
| "setRole k w (ColumnsOther v) = Inl TypeError"

text \<open>
  One of the five guarded assignments, \<open>if (ok) columns[k] = v\<close>, run after the earlier
  ones unless one of them has thrown; \<open>ok\<close> is the \<open>typeof\<close> test on \<open>v\<close>.
\<close>

definition assignRole ::
  "string \<Rightarrow> jsval option \<Rightarrow> bool \<Rightarrow> viewer_error + columns_value \<Rightarrow> viewer_error + columns_value" where
  "assignRole k v ok cols =
     (case cols of
        Inl e \<Rightarrow> Inl e
      | Inr c \<Rightarrow> (case v of Some w \<Rightarrow> if ok then setRole k w c else Inr c | None \<Rightarrow> Inr c))"

fun is_string :: "jsval option \<Rightarrow> bool" where
  "is_string (Some (JStr s)) = True"
| "is_string _ = False"

fun is_array :: "jsval option \<Rightarrow> bool" where
  "is_array (Some (JArr xs)) = True"
| "is_array _ = False"

definition finalGraphSuggestionForViewer :: "jsobj option \<Rightarrow> viewer_error + ViewerSuggestion option" where
  "finalGraphSuggestionForViewer currentRawGraphSuggestion =
     (case currentRawGraphSuggestion of
        None \<Rightarrow> Inr None
      | Some raw \<Rightarrow>
          if map_of raw ''type'' = Some (JStr ''image'') then
            Inr (Some (Image \<lparr>img_title = map_of raw ''title'',
                               img_description = map_of raw ''description'',
                               image_base64 = map_of raw ''image_base64'',
                               original_suggestion = map_of raw ''original_suggestion''\<rparr>))
          else
            (let x_axis = map_of raw ''x_axis''; y_axis = map_of raw ''y_axis'';
                 names = map_of raw ''names''; values = map_of raw ''values'';
                 color_column = map_of raw ''color_column''; chart_type = map_of raw ''chart_type'';
                 relevantType = map_of raw ''type'';
                 restOfChatSuggestion = foldr AList.delete destructuredKeys raw;
                 type' = (if is_string chart_type then chart_type else relevantType);
                 title' = as_string (map_of raw ''title'');
                 description' = as_string (map_of raw ''description'');
                 assigned =
                   assignRole ''color'' color_column (is_string color_column)
                     (assignRole ''values'' values (is_string values)
                       (assignRole ''names'' names (is_string names)
                         (assignRole ''y'' y_axis (is_string y_axis \<or> is_array y_axis)
                           (assignRole ''x'' x_axis (is_string x_axis)
                             (Inr (initialColumns restOfChatSuggestion))))))
             in case assigned of
                  Inl e \<Rightarrow> Inl e
                | Inr columns' \<Rightarrow>
                    if type' = Some (JStr ''image'') \<or> type' = Some (JStr ''none'') then
                      (if type' = Some (JStr ''none'')
                       then Inr (Some (Plotly \<lparr>pc_type = Some (JStr ''none''), pc_title = title',
                                                pc_description = None,
                                                pc_columns = ColumnsObject [],
                                                pc_rest = []\<rparr>))
                       else Inr None)
                    else Inr (Some (Plotly \<lparr>pc_type = type', pc_title = title',
                                             pc_description = description',
                                             pc_columns = columns',
                                             pc_rest = AList.delete ''columns'' restOfChatSuggestion\<rparr>))))"

text \<open>
  Chart normalization as the application runs it: a backend suggestion is stored through
  \<open>mapSuggestion\<close> and, when selected, handed to the viewer through
  \<open>finalGraphSuggestionForViewer\<close>.
\<close>

definition normalizeSuggestion :: "jsobj \<Rightarrow> viewer_error + ViewerSuggestion option" where
  "normalizeSuggestion bs = finalGraphSuggestionForViewer (Some (mapSuggestion bs))"

section \<open>The plot computed by the viewer (GraphViewer.tsx)\<close>



















section \<open>Notions used in the statements\<close>

text \<open>
  The result that bulk processing builds from the entry at a 0-based index, written
  from the description of the defaults rather than from the loop.
\<close>

definition builtResult :: "nat \<times> ExecutedQuery \<Rightarrow> QueryResult" where
  "builtResult p =
     \<lparr>objective = (case eq_objective (snd p) of
                     None \<Rightarrow> ''Executed Query '' @ string_of_nat (fst p + 1)
                   | Some s \<Rightarrow> if s = [] then ''Executed Query '' @ string_of_nat (fst p + 1) else s),
      query = (case eq_query (snd p) of None \<Rightarrow> ''N/A'' | Some s \<Rightarrow> if s = [] then ''N/A'' else s),
      dataframe = (case eq_data (snd p) of None \<Rightarrow> [] | Some d \<Rightarrow> d),
      error = None,
      platform = eq_platform (snd p)\<rparr>"

text \<open>The triple that identifies a result, and the invariant of the list of results.\<close>

definition triple :: "QueryResult \<Rightarrow> string \<times> string \<times> string option" where
  "triple qr = (objective qr, query qr, platform qr)"

definition unique_triples :: "QueryResult list \<Rightarrow> bool" where
  "unique_triples qs = distinct (map triple qs)"

text \<open>The \<open>executed_queries\<close> array an operation processes in bulk, if it does.\<close>

fun bulk_payload :: "operation \<Rightarrow> ExecutedQuery list option" where
  "bulk_payload (Receive i m) =
     (if ws_type m = ''final_insight'' \<or> ws_type m = ''final_recommendation''
      then ws_executed_queries m else None)"
| "bulk_payload _ = None"

text \<open>\<open>k\<close> is the last position of \<open>xs\<close> whose element satisfies \<open>p\<close>.\<close>

definition is_last_match :: "('a \<Rightarrow> bool) \<Rightarrow> 'a list \<Rightarrow> nat \<Rightarrow> bool" where
  "is_last_match p xs k =
     (k < length xs \<and> p (xs ! k) \<and> (\<forall>j. k < j \<and> j < length xs \<longrightarrow> \<not> p (xs ! j)))"

text \<open>A message of a given type with no other field, and a result, for the examples.\<close>

definition blankMessage :: "string \<Rightarrow> WebSocketMessage" where
  "blankMessage t =
     \<lparr>ws_type = t, ws_user_id = None, ws_step = None, ws_status = None, ws_details = None,
      ws_reasoning = None, ws_insight = None, ws_report_sections = None,
      ws_graph_suggestions = None, ws_message = None, ws_generated_queries = None,
      ws_objective = None, ws_query = None, ws_data = None, ws_error = None, ws_content = None,
      ws_platform = None, ws_executed_queries = None\<rparr>"

definition sampleResult :: QueryResult where
  "sampleResult =
     \<lparr>objective = ''Q1'', query = ''SELECT 1'', dataframe = [[(''a'', JNum 1)]], error = None,
      platform = None\<rparr>"

text \<open>Folding a sequence of received messages, each with the identifier it may use.\<close>

definition receiveAll :: "(string \<times> WebSocketMessage) list \<Rightarrow> ChatState \<Rightarrow> ChatState" where
  "receiveAll ms st = fold (\<lambda>im. handleMessage (fst im) (snd im)) ms st"

text \<open>
  \<open>pat\<close> occurs in \<open>s\<close> between \<open>pre\<close> and \<open>post\<close>, and nowhere earlier: \<open>post\<close> is the text
  after the first occurrence of \<open>pat\<close>.
\<close>

definition first_occurrence :: "string \<Rightarrow> string \<Rightarrow> string \<Rightarrow> string \<Rightarrow> bool" where
  "first_occurrence s pat pre post =
     (s = pre @ pat @ post \<and> (\<forall>j < length pre. \<not> prefix pat (drop j s)))"

text \<open>The context-marked input of the specification's scenario.\<close>

definition scenarioMessage :: string where
  "scenarioMessage =
     ''---DISPLAY_CONTEXT START---Filtered to US---DISPLAY_CONTEXT END------QUERY START---show me US revenue''"


text \<open>A \<open>columns\<close> object with the role \<open>k\<close> set to \<open>v\<close> when \<open>v\<close> is a string, else unchanged.\<close>

definition withFlatRole :: "string \<Rightarrow> jsval option \<Rightarrow> jsobj \<Rightarrow> jsobj" where
  "withFlatRole k v cols =
     (if is_string v then (case v of Some w \<Rightarrow> AList.update k w cols | None \<Rightarrow> cols) else cols)"

section \<open>Evaluation lemmas\<close>

lemma string_of_nat_digit: "n < 10 \<Longrightarrow> string_of_nat n = [''0123456789'' ! n]"
  by (simp add: string_of_nat.simps [of n] digit_char_def)

section \<open>Bulk processing of executed queries\<close>

lemma executedQueriesLoop_eq:
  "executedQueriesLoop i es (rs, ws) =
     (rs @ map builtResult (filter (\<lambda>p. eq_data (snd p) \<noteq> None) (enumerate i es)),
      ws @ map fst (filter (\<lambda>p. eq_data (snd p) = None) (enumerate i es)))"
proof (induction es arbitrary: i rs ws)
  case Nil
  then show ?case by simp
next
  case (Cons e es)
  show ?case
  proof (cases "eq_data e")
    case None
    then show ?thesis using Cons.IH [of "Suc i"] by simp
  next
    case (Some d)
    then show ?thesis using Cons.IH [of "Suc i"]
      by (cases "eq_objective e"; cases "eq_query e") (simp_all add: builtResult_def)
  qed
qed

text \<open>
  C2, as the claim states it, fails: an entry whose \<open>data\<close> is an empty array is not
  skipped. The guard \<open>if (executedQuery.data)\<close> is a truthiness test and an empty array is
  truthy, so the entry becomes a result with no rows.
\<close>

theorem C2_empty_data_kept:
  "handleExecutedQueries
     (Some [\<lparr>eq_platform = Some ''google'', eq_objective = Some ''Q1'', eq_query = Some ''SELECT 1'',
             eq_data = Some []\<rparr>])
     initialState
   = (True, initialState\<lparr>queryResults :=
        [\<lparr>objective = ''Q1'', query = ''SELECT 1'', dataframe = [], error = None,
          platform = Some ''google''\<rparr>]\<rparr>)"
  by (simp add: handleExecutedQueries_def)

text \<open>
  C2, amended: processing an \<open>executed_queries\<close> array replaces the list of results
  whatever it held before. The new list has, in order, one result for each entry whose
  \<open>data\<close> is present (an empty array included), with \<open>objective\<close> defaulting to
  "Executed Query" and the 1-based index of the entry in the array, and \<open>query\<close> defaulting
  to "N/A"; the entries whose \<open>data\<close> is absent are skipped, and they are the ones a
  warning is printed for.
\<close>

theorem C2_bulk_replaces:
  "handleExecutedQueries (Some eqs) st =
     (True, st\<lparr>queryResults :=
                 map builtResult (filter (\<lambda>p. eq_data (snd p) \<noteq> None) (enumerate 0 eqs))\<rparr>)
   \<and> queryResults (snd (handleExecutedQueries (Some eqs) st)) =
       queryResults (snd (handleExecutedQueries (Some eqs) st'))
   \<and> snd (executedQueriesLoop 0 eqs ([], [])) =
       map fst (filter (\<lambda>p. eq_data (snd p) = None) (enumerate 0 eqs))"
  by (simp add: handleExecutedQueries_def executedQueriesLoop_eq)

theorem C2_bulk_replaces_witness:
  "handleExecutedQueries
     (Some [\<lparr>eq_platform = Some ''google'', eq_objective = None, eq_query = None,
             eq_data = Some [[(''clicks'', JNum 7)]]\<rparr>,
            \<lparr>eq_platform = Some ''google'', eq_objective = Some ''Spend'', eq_query = Some ''SELECT 2'',
             eq_data = None\<rparr>,
            \<lparr>eq_platform = Some ''facebook'', eq_objective = Some ''Reach'', eq_query = None,
             eq_data = Some [[(''reach'', JNum 9)]]\<rparr>])
     (initialState\<lparr>queryResults := [sampleResult, sampleResult\<lparr>objective := ''Q2''\<rparr>,
                                      sampleResult\<lparr>objective := ''Q3''\<rparr>]\<rparr>)
   = (True, initialState\<lparr>queryResults :=
        [\<lparr>objective = ''Executed Query 1'', query = ''N/A'', dataframe = [[(''clicks'', JNum 7)]],
          error = None, platform = Some ''google''\<rparr>,
         \<lparr>objective = ''Reach'', query = ''N/A'', dataframe = [[(''reach'', JNum 9)]],
          error = None, platform = Some ''facebook''\<rparr>]\<rparr>)"
  using C2_bulk_replaces [of
      "[\<lparr>eq_platform = Some ''google'', eq_objective = None, eq_query = None,
             eq_data = Some [[(''clicks'', JNum 7)]]\<rparr>,
            \<lparr>eq_platform = Some ''google'', eq_objective = Some ''Spend'', eq_query = Some ''SELECT 2'',
             eq_data = None\<rparr>,
            \<lparr>eq_platform = Some ''facebook'', eq_objective = Some ''Reach'', eq_query = None,
             eq_data = Some [[(''reach'', JNum 9)]]\<rparr>]"
      "initialState\<lparr>queryResults := [sampleResult, sampleResult\<lparr>objective := ''Q2''\<rparr>,
                                      sampleResult\<lparr>objective := ''Q3''\<rparr>]\<rparr>" initialState]
  by (simp add: builtResult_def enumerate_eq_zip upt_rec string_of_nat_digit)

section \<open>Refused sends\<close>

text \<open>
  C3, as the claim states it, fails for a text of white space only: with the channel OPEN
  and the session identifier known, \<open>sendMessage\<close> returns at once. No system entry is
  added and the processing flag keeps its value, here \<open>True\<close>.
\<close>

theorem C3_blank_text_silent:
  "sendMessage OPEN ''a'' ''b'' ''   '' (initialState\<lparr>userId := Some ''u1'', isProcessing := True\<rparr>)
   = (initialState\<lparr>userId := Some ''u1'', isProcessing := True\<rparr>, None)"
  by (simp add: sendMessage_def trim_def is_ws_def)

text \<open>
  C3, amended: a call of \<open>sendMessage\<close> made while the channel is not OPEN, or while the
  session identifier is absent, issues no request and changes the state in two places
  only: one system-role error entry is appended to the transcript and the processing
  flag is set to false. A call with an empty or white-space-only text, made while the
  channel is OPEN and the identifier known, issues no request and changes nothing.
\<close>

theorem C3_guarded_send:
  "(readyState \<noteq> OPEN \<longrightarrow>
      sendMessage readyState id1 id2 message st =
        (st\<lparr>messages := messages st @
              [newMessage id1 System ''Error: Cannot connect to assistant. Backend connection is closed.''],
            isProcessing := False\<rparr>, None))
   \<and> (readyState = OPEN \<and> \<not> truthy_str (userId st) \<longrightarrow>
      sendMessage readyState id1 id2 message st =
        (st\<lparr>messages := messages st @
              [newMessage id1 System
                 ''Error: Connection established, but user ID not received yet. Please wait a moment and try again.''],
            isProcessing := False\<rparr>, None))
   \<and> (readyState = OPEN \<and> truthy_str (userId st) \<and> trim message = [] \<longrightarrow>
      sendMessage readyState id1 id2 message st = (st, None))"
  by (auto simp: sendMessage_def addMessageToChat_def split: option.splits)

theorem C3_guarded_send_witness:
  "CLOSED \<noteq> OPEN
   \<and> sendMessage CLOSED ''e1'' ''e2'' ''hello'' (initialState\<lparr>isProcessing := True\<rparr>) =
       (initialState\<lparr>messages := messages initialState @
            [newMessage ''e1'' System ''Error: Cannot connect to assistant. Backend connection is closed.''],
          isProcessing := False\<rparr>, None)
   \<and> \<not> truthy_str (userId initialState)
   \<and> sendMessage OPEN ''e1'' ''e2'' ''hello'' initialState =
       (initialState\<lparr>messages := messages initialState @
            [newMessage ''e1'' System
               ''Error: Connection established, but user ID not received yet. Please wait a moment and try again.''],
          isProcessing := False\<rparr>, None)
   \<and> truthy_str (userId (initialState\<lparr>userId := Some ''u1''\<rparr>))
   \<and> trim [CHR 0x20, CHR 0x09] = []
   \<and> sendMessage OPEN ''e1'' ''e2'' [CHR 0x20, CHR 0x09] (initialState\<lparr>userId := Some ''u1''\<rparr>) =
       (initialState\<lparr>userId := Some ''u1''\<rparr>, None)"
  using C3_guarded_send [of CLOSED "''e1''" "''e2''" "''hello''" "initialState\<lparr>isProcessing := True\<rparr>"]
    C3_guarded_send [of OPEN "''e1''" "''e2''" "''hello''" initialState]
    C3_guarded_send [of OPEN "''e1''" "''e2''" "[CHR 0x20, CHR 0x09]" "initialState\<lparr>userId := Some ''u1''\<rparr>"]
  by (simp add: initialState_def trim_def is_ws_def)

section \<open>Final events and the list of results\<close>

text \<open>
  C4: a \<open>final_insight\<close> event without \<open>executed_queries\<close> leaves the list of results as
  it is, a \<open>final_recommendation\<close> event without \<open>executed_queries\<close> empties it, and the
  processing flag is false after either.
\<close>

theorem C4_final_events:
  assumes "ws_executed_queries m = None"
  shows "(ws_type m = ''final_insight'' \<longrightarrow>
            queryResults (handleMessage i m st) = queryResults st
            \<and> \<not> isProcessing (handleMessage i m st))
       \<and> (ws_type m = ''final_recommendation'' \<longrightarrow>
            queryResults (handleMessage i m st) = []
            \<and> \<not> isProcessing (handleMessage i m st))"
  using assms
  by (auto simp: handleMessage_def on_final_insight_def on_final_recommendation_def
      handleExecutedQueries_def handleGraphSuggestions_def addMessageToChat_def Let_def
      split: option.splits list.splits)

theorem C4_final_events_witness:
  "ws_executed_queries (blankMessage ''final_insight'') = None
   \<and> ws_executed_queries (blankMessage ''final_recommendation'') = None
   \<and> queryResults (handleMessage ''m1'' (blankMessage ''final_insight'')
        (initialState\<lparr>queryResults := [sampleResult], isProcessing := True\<rparr>)) = [sampleResult]
   \<and> \<not> isProcessing (handleMessage ''m1'' (blankMessage ''final_insight'')
        (initialState\<lparr>queryResults := [sampleResult], isProcessing := True\<rparr>))
   \<and> queryResults (handleMessage ''m1'' (blankMessage ''final_recommendation'')
        (initialState\<lparr>queryResults := [sampleResult], isProcessing := True\<rparr>)) = []
   \<and> \<not> isProcessing (handleMessage ''m1'' (blankMessage ''final_recommendation'')
        (initialState\<lparr>queryResults := [sampleResult], isProcessing := True\<rparr>))"
  using C4_final_events [of "blankMessage ''final_insight''" "''m1''"
      "initialState\<lparr>queryResults := [sampleResult], isProcessing := True\<rparr>"]
    C4_final_events [of "blankMessage ''final_recommendation''" "''m1''"
      "initialState\<lparr>queryResults := [sampleResult], isProcessing := True\<rparr>"]
  by (simp add: blankMessage_def)

section \<open>Reasoning summaries\<close>

lemma findLastIndex_None_iff: "findLastIndex p xs = None \<longleftrightarrow> (\<forall>x \<in> set xs. \<not> p x)"
  by (induction xs) (auto split: option.splits)

lemma findLastIndex_Some_iff: "findLastIndex p xs = Some k \<longleftrightarrow> is_last_match p xs k"
proof (induction xs arbitrary: k)
  case Nil
  then show ?case by (simp add: is_last_match_def)
next
  case (Cons x xs)
  show ?case
  proof (cases "findLastIndex p xs")
    case None
    then have no: "\<forall>y \<in> set xs. \<not> p y" by (simp add: findLastIndex_None_iff)
    have "is_last_match p (x # xs) k \<longleftrightarrow> (k = 0 \<and> p x)"
    proof
      assume h: "is_last_match p (x # xs) k"
      show "k = 0 \<and> p x"
      proof (cases k)
        case 0
        then show ?thesis using h by (simp add: is_last_match_def)
      next
        case (Suc k')
        then have "k' < length xs" "p (xs ! k')" using h by (simp_all add: is_last_match_def)
        then show ?thesis using no by auto
      qed
    next
      assume h: "k = 0 \<and> p x"
      show "is_last_match p (x # xs) k"
        unfolding is_last_match_def
      proof (intro conjI allI impI)
        show "k < length (x # xs)" using h by simp
        show "p ((x # xs) ! k)" using h by simp
      next
        fix j assume "k < j \<and> j < length (x # xs)"
        then obtain j' where "j = Suc j'" "j' < length xs" using h by (cases j) auto
        then show "\<not> p ((x # xs) ! j)" using no by auto
      qed
    qed
    then show ?thesis using None by auto
  next
    case (Some j)
    then have lm: "is_last_match p xs j" using Cons.IH by simp
    have "is_last_match p (x # xs) k \<longleftrightarrow> k = Suc j"
    proof
      assume h: "is_last_match p (x # xs) k"
      show "k = Suc j"
      proof (cases k)
        case 0
        have "0 < Suc j \<and> Suc j < length (x # xs)" using lm by (simp add: is_last_match_def)
        then have "\<not> p ((x # xs) ! Suc j)" using h 0 unfolding is_last_match_def by blast
        then show ?thesis using lm by (simp add: is_last_match_def)
      next
        case (Suc k')
        have "is_last_match p xs k'"
          unfolding is_last_match_def
        proof (intro conjI allI impI)
          show "k' < length xs" using h Suc by (simp add: is_last_match_def)
          show "p (xs ! k')" using h Suc by (simp add: is_last_match_def)
        next
          fix i assume a: "k' < i \<and> i < length xs"
          then have "k < Suc i \<and> Suc i < length (x # xs)" using Suc by simp
          then have "\<not> p ((x # xs) ! Suc i)" using h unfolding is_last_match_def by blast
          then show "\<not> p (xs ! i)" by simp
        qed
        then have "findLastIndex p xs = Some k'" using Cons.IH by simp
        then show ?thesis using Some Suc by simp
      qed
    next
      assume h: "k = Suc j"
      show "is_last_match p (x # xs) k"
        unfolding is_last_match_def
      proof (intro conjI allI impI)
        show "k < length (x # xs)" using h lm by (simp add: is_last_match_def)
        show "p ((x # xs) ! k)" using h lm by (simp add: is_last_match_def)
      next
        fix i assume a: "k < i \<and> i < length (x # xs)"
        then obtain i' where i': "i = Suc i'" "j < i'" "i' < length xs" using h by (cases i) auto
        then have "\<not> p (xs ! i')" using lm unfolding is_last_match_def by blast
        then show "\<not> p ((x # xs) ! i)" using i' by simp
      qed
    qed
    then show ?thesis using Some by auto
  qed
qed

text \<open>
  C6: a \<open>reasoning_summary\<close> event changes nothing but the transcript, keeps its length,
  and leaves every entry as it was except the last milestone entry whose step is the
  event's, which differs in its \<open>reasoning\<close> field only (and only when the event carries
  a step and a reasoning text). When no milestone entry has the event's step the state
  is unchanged.
\<close>

theorem C6_reasoning_summary_frame:
  assumes "ws_type m = ''reasoning_summary''"
  shows "handleMessage i m st = st\<lparr>messages := messages (handleMessage i m st)\<rparr>
    \<and> length (messages (handleMessage i m st)) = length (messages st)
    \<and> (\<forall>k < length (messages st).
          messages (handleMessage i m st) ! k =
            (if truthy_str (ws_step m) \<and> truthy_str (ws_reasoning m)
                \<and> is_last_match (\<lambda>e. role e = Milestone \<and> step e = ws_step m) (messages st) k
             then (messages st ! k)
                    \<lparr>reasoning := Some (''**Reasoning:**'' @ [CHR 0x0A] @ template_opt (ws_reasoning m))\<rparr>
             else messages st ! k))
    \<and> ((\<forall>e \<in> set (messages st). \<not> (role e = Milestone \<and> step e = ws_step m)) \<longrightarrow>
          handleMessage i m st = st)"
proof -
  let ?p = "\<lambda>e. role e = Milestone \<and> step e = ws_step m"
  have hm: "handleMessage i m st = on_reasoning_summary m st"
    using assms by (simp add: handleMessage_def)
  show ?thesis
  proof (cases "truthy_str (ws_step m) \<and> truthy_str (ws_reasoning m)")
    case False
    then have "on_reasoning_summary m st = st" by (auto simp: on_reasoning_summary_def)
    then show ?thesis using hm False by auto
  next
    case True
    show ?thesis
    proof (cases "findLastIndex ?p (messages st)")
      case None
      then have "on_reasoning_summary m st = st" using True by (simp add: on_reasoning_summary_def)
      moreover have "\<And>k. \<not> is_last_match ?p (messages st) k"
        using None findLastIndex_Some_iff [of ?p "messages st"] by simp
      ultimately show ?thesis using hm by simp
    next
      case (Some j)
      then have lm: "is_last_match ?p (messages st) j" by (simp add: findLastIndex_Some_iff)
      have uniq: "is_last_match ?p (messages st) k \<longleftrightarrow> k = j" for k
        unfolding findLastIndex_Some_iff [symmetric] Some by auto
      have eq: "on_reasoning_summary m st =
          st\<lparr>messages := (messages st)[j := (messages st ! j)
               \<lparr>reasoning := Some (''**Reasoning:**'' @ [CHR 0x0A] @ template_opt (ws_reasoning m))\<rparr>]\<rparr>"
        using True Some by (simp add: on_reasoning_summary_def Let_def)
      have jlt: "j < length (messages st)" using lm by (simp add: is_last_match_def)
      have pj: "?p (messages st ! j)" using lm by (simp add: is_last_match_def)
      have ex: "\<exists>e \<in> set (messages st). ?p e" using jlt pj nth_mem by blast
      show ?thesis
        unfolding hm eq using True uniq ex by (auto simp: nth_list_update)
    qed
  qed
qed

theorem C6_reasoning_summary_frame_witness:
  "ws_type ((blankMessage ''reasoning_summary'')
              \<lparr>ws_step := Some ''generate_queries'', ws_reasoning := Some ''because''\<rparr>)
     = ''reasoning_summary''
   \<and> messages (handleMessage ''i''
        ((blankMessage ''reasoning_summary'')
           \<lparr>ws_step := Some ''generate_queries'', ws_reasoning := Some ''because''\<rparr>)
        (initialState\<lparr>messages :=
           [(newMessage ''a'' Milestone ''one'')\<lparr>step := Some ''generate_queries''\<rparr>,
            (newMessage ''b'' Milestone ''two'')\<lparr>step := Some ''generate_queries''\<rparr>,
            newMessage ''c'' User ''three'']\<rparr>))
     = [(newMessage ''a'' Milestone ''one'')\<lparr>step := Some ''generate_queries''\<rparr>,
        (newMessage ''b'' Milestone ''two'')
          \<lparr>step := Some ''generate_queries'',
           reasoning := Some (''**Reasoning:**'' @ [CHR 0x0A] @ ''because'')\<rparr>,
        newMessage ''c'' User ''three'']
   \<and> handleMessage ''i''
        ((blankMessage ''reasoning_summary'')
           \<lparr>ws_step := Some ''execute_queries'', ws_reasoning := Some ''because''\<rparr>)
        (initialState\<lparr>messages :=
           [(newMessage ''a'' Milestone ''one'')\<lparr>step := Some ''generate_queries''\<rparr>]\<rparr>)
     = initialState\<lparr>messages :=
           [(newMessage ''a'' Milestone ''one'')\<lparr>step := Some ''generate_queries''\<rparr>]\<rparr>"
  using C6_reasoning_summary_frame [of
      "(blankMessage ''reasoning_summary'')
         \<lparr>ws_step := Some ''generate_queries'', ws_reasoning := Some ''because''\<rparr>" "''i''"
      "initialState\<lparr>messages :=
           [(newMessage ''a'' Milestone ''one'')\<lparr>step := Some ''generate_queries''\<rparr>,
            (newMessage ''b'' Milestone ''two'')\<lparr>step := Some ''generate_queries''\<rparr>,
            newMessage ''c'' User ''three'']\<rparr>"]
    C6_reasoning_summary_frame [of
      "(blankMessage ''reasoning_summary'')
         \<lparr>ws_step := Some ''execute_queries'', ws_reasoning := Some ''because''\<rparr>" "''i''"
      "initialState\<lparr>messages :=
           [(newMessage ''a'' Milestone ''one'')\<lparr>step := Some ''generate_queries''\<rparr>]\<rparr>"]
  by (simp add: blankMessage_def handleMessage_def on_reasoning_summary_def newMessage_def Let_def)

section \<open>Query results without rows\<close>

text \<open>
  C10, as the claim states it, fails twice. A second \<open>query_result\<close> event with the
  triple of an earlier one is dropped by the de-duplication, with or without rows; and
  bulk processing keeps an entry whose \<open>data\<close> is an empty array.
\<close>

theorem C10_second_event_not_appended:
  "queryResults (handleMessage ''m2'' (blankMessage ''query_result'')
      (handleMessage ''m1'' (blankMessage ''query_result'') initialState))
   = queryResults (handleMessage ''m1'' (blankMessage ''query_result'') initialState)
   \<and> queryResults (handleMessage ''m1'' (blankMessage ''query_result'') initialState)
     = [\<lparr>objective = ''Unknown Objective'', query = ''Unknown Query'', dataframe = [], error = None,
         platform = None\<rparr>]
   \<and> queryResults (snd (handleExecutedQueries
        (Some [\<lparr>eq_platform = None, eq_objective = None, eq_query = None, eq_data = Some []\<rparr>])
        initialState))
     = [\<lparr>objective = ''Executed Query 1'', query = ''N/A'', dataframe = [], error = None,
         platform = None\<rparr>]"
  by (simp add: handleMessage_def on_query_result_def blankMessage_def initialState_def
      handleExecutedQueries_def Let_def string_of_nat_digit)

text \<open>
  C10, amended: a \<open>query_result\<close> event whose \<open>data\<close> is absent or empty goes through the
  same de-duplication as any other. When no result of the list has its triple, one
  result with no rows is appended, \<open>objective\<close> and \<open>query\<close> defaulting to
  "Unknown Objective" and "Unknown Query"; when one has, the state is unchanged. (Bulk
  processing, for its part, skips an entry exactly when its \<open>data\<close> is absent.)
\<close>

theorem C10_dataless_query_result:
  assumes "ws_type m = ''query_result''" and "ws_data m = None \<or> ws_data m = Some []"
  shows "handleMessage i m st =
           (if \<exists>qr \<in> set (queryResults st).
                 triple qr = (or_default (ws_objective m) ''Unknown Objective'',
                              or_default (ws_query m) ''Unknown Query'', ws_platform m)
            then st
            else st\<lparr>queryResults := queryResults st @
                   [\<lparr>objective = or_default (ws_objective m) ''Unknown Objective'',
                     query = or_default (ws_query m) ''Unknown Query'',
                     dataframe = [], error = ws_error m, platform = ws_platform m\<rparr>]\<rparr>)
         \<and> or_default None ''Unknown Objective'' = ''Unknown Objective''
         \<and> or_default None ''Unknown Query'' = ''Unknown Query''
         \<and> fst (executedQueriesLoop k [e] (rs, ws)) =
             (if eq_data e = None then rs else rs @ [builtResult (k, e)])"
  using assms
  by (auto simp: handleMessage_def on_query_result_def Let_def triple_def list_ex_iff
      executedQueriesLoop_eq)

theorem C10_dataless_query_result_witness:
  "ws_type ((blankMessage ''query_result'')\<lparr>ws_data := Some []\<rparr>) = ''query_result''
   \<and> ws_data ((blankMessage ''query_result'')\<lparr>ws_data := Some []\<rparr>) = Some []
   \<and> handleMessage ''i'' ((blankMessage ''query_result'')\<lparr>ws_data := Some []\<rparr>)
        (initialState\<lparr>queryResults := [sampleResult]\<rparr>)
     = initialState\<lparr>queryResults :=
         [sampleResult,
          \<lparr>objective = ''Unknown Objective'', query = ''Unknown Query'', dataframe = [],
           error = None, platform = None\<rparr>]\<rparr>
   \<and> handleMessage ''i'' ((blankMessage ''query_result'')\<lparr>ws_objective := Some ''Q1'',
          ws_query := Some ''SELECT 1''\<rparr>)
        (initialState\<lparr>queryResults := [sampleResult]\<rparr>)
     = initialState\<lparr>queryResults := [sampleResult]\<rparr>"
  using C10_dataless_query_result [of "(blankMessage ''query_result'')\<lparr>ws_data := Some []\<rparr>" "''i''"
      "initialState\<lparr>queryResults := [sampleResult]\<rparr>"]
    C10_dataless_query_result [of "(blankMessage ''query_result'')\<lparr>ws_objective := Some ''Q1'',
          ws_query := Some ''SELECT 1''\<rparr>" "''i''"
      "initialState\<lparr>queryResults := [sampleResult]\<rparr>"]
  by (simp add: blankMessage_def sampleResult_def triple_def)

section \<open>The invariant of the list of results\<close>

lemma queryResults_on_query_result:
  "queryResults (on_query_result m st) =
     (if \<exists>qr \<in> set (queryResults st).
           triple qr = (or_default (ws_objective m) ''Unknown Objective'',
                        or_default (ws_query m) ''Unknown Query'', ws_platform m)
      then queryResults st
      else queryResults st @
             [\<lparr>objective = or_default (ws_objective m) ''Unknown Objective'',
               query = or_default (ws_query m) ''Unknown Query'',
               dataframe = (case ws_data m of Some d \<Rightarrow> d | None \<Rightarrow> []),
               error = ws_error m, platform = ws_platform m\<rparr>])"
  by (auto simp: on_query_result_def Let_def triple_def list_ex_iff)

lemma unique_on_query_result:
  "unique_triples (queryResults st) \<Longrightarrow> unique_triples (queryResults (on_query_result m st))"
  by (auto simp: queryResults_on_query_result unique_triples_def triple_def)

lemma triple_in_on_query_result:
  "(or_default (ws_objective m) ''Unknown Objective'', or_default (ws_query m) ''Unknown Query'',
    ws_platform m) \<in> triple ` set (queryResults (on_query_result m st))"
proof (cases "\<exists>qr \<in> set (queryResults st).
           triple qr = (or_default (ws_objective m) ''Unknown Objective'',
                        or_default (ws_query m) ''Unknown Query'', ws_platform m)")
  case True
  then obtain qr where "qr \<in> set (queryResults st)"
    "triple qr = (or_default (ws_objective m) ''Unknown Objective'',
                  or_default (ws_query m) ''Unknown Query'', ws_platform m)" by blast
  moreover have "queryResults (on_query_result m st) = queryResults st"
    using True by (simp only: queryResults_on_query_result if_True)
  ultimately show ?thesis by (metis imageI)
next
  case False
  then have "queryResults (on_query_result m st) = queryResults st @
             [\<lparr>objective = or_default (ws_objective m) ''Unknown Objective'',
               query = or_default (ws_query m) ''Unknown Query'',
               dataframe = (case ws_data m of Some d \<Rightarrow> d | None \<Rightarrow> []),
               error = ws_error m, platform = ws_platform m\<rparr>]"
    by (simp only: queryResults_on_query_result if_False)
  then show ?thesis by (simp add: triple_def)
qed

lemma queryResults_on_status: "queryResults (on_status i m st) = queryResults st"
  by (auto simp: on_status_def Let_def split: prod.splits option.splits)

lemma queryResults_handleMessage_other:
  assumes "ws_type m \<noteq> ''final_insight''" "ws_type m \<noteq> ''final_recommendation''"
    "ws_type m \<noteq> ''query_result''"
  shows "queryResults (handleMessage i m st) = queryResults st"
  using assms
  by (auto simp: handleMessage_def on_connection_established_def queryResults_on_status
      on_classifier_info_def on_classifier_answer_def on_reasoning_summary_def on_error_def
      addMessageToChat_def Let_def split: option.splits)

lemma queryResults_final_insight:
  "queryResults (on_final_insight i m st) =
     (case ws_executed_queries m of
        None \<Rightarrow> queryResults st
      | Some eqs \<Rightarrow> map builtResult (filter (\<lambda>p. eq_data (snd p) \<noteq> None) (enumerate 0 eqs)))"
  by (auto simp: on_final_insight_def handleExecutedQueries_def handleGraphSuggestions_def
      addMessageToChat_def executedQueriesLoop_eq Let_def split: option.splits list.splits)

lemma queryResults_final_recommendation:
  "queryResults (on_final_recommendation i m st) =
     (case ws_executed_queries m of
        None \<Rightarrow> []
      | Some eqs \<Rightarrow> map builtResult (filter (\<lambda>p. eq_data (snd p) \<noteq> None) (enumerate 0 eqs)))"
  by (auto simp: on_final_recommendation_def handleExecutedQueries_def handleGraphSuggestions_def
      addMessageToChat_def executedQueriesLoop_eq Let_def split: option.splits list.splits)

lemma queryResults_sendMessage:
  "queryResults (fst (sendMessage rs id1 id2 msg st)) = queryResults st
   \<or> queryResults (fst (sendMessage rs id1 id2 msg st)) = []"
  by (auto simp: sendMessage_def addMessageToChat_def Let_def split: option.splits prod.splits)

lemma queryResults_handleFetchOutcome:
  "queryResults (handleFetchOutcome i outcome st) = queryResults st"
  by (cases outcome)
    (auto simp: handleFetchOutcome_def addMessageToChat_def Let_def split: option.splits prod.splits)

lemma unique_apply_operation:
  assumes "unique_triples (queryResults st)" "bulk_payload op = None"
  shows "unique_triples (queryResults (apply_operation op st))"
proof (cases op)
  case (Receive i m)
  consider (fi) "ws_type m = ''final_insight''" | (fr) "ws_type m = ''final_recommendation''"
    | (qr) "ws_type m = ''query_result''"
    | (other) "ws_type m \<noteq> ''final_insight''" "ws_type m \<noteq> ''final_recommendation''"
        "ws_type m \<noteq> ''query_result''"
    by blast
  then show ?thesis
  proof cases
    case fi
    then have "handleMessage i m st = on_final_insight i m st" by (simp add: handleMessage_def)
    then show ?thesis using assms Receive fi by (simp add: queryResults_final_insight)
  next
    case fr
    then have "handleMessage i m st = on_final_recommendation i m st" by (simp add: handleMessage_def)
    then show ?thesis using assms Receive fr
      by (simp add: queryResults_final_recommendation unique_triples_def)
  next
    case qr
    then have "handleMessage i m st = on_query_result m st" by (simp add: handleMessage_def)
    then show ?thesis using assms Receive by (simp add: unique_on_query_result)
  next
    case other
    then show ?thesis using assms Receive by (simp add: queryResults_handleMessage_other)
  qed
next
  case (Send rs id1 id2 msg)
  then show ?thesis using assms queryResults_sendMessage [of rs id1 id2 msg st]
    by (auto simp: unique_triples_def)
next
  case (Fetched i outcome)
  then show ?thesis using assms by (simp add: queryResults_handleFetchOutcome)
next
  case Opened
  then show ?thesis using assms by (simp add: onOpen_def)
next
  case Closed
  then show ?thesis using assms by (simp add: onClose_def)
next
  case Errored
  then show ?thesis using assms by (simp add: onError_def)
qed

lemma bulk_apply_operation:
  assumes "bulk_payload op = Some eqs"
  shows "queryResults (apply_operation op st) =
           map builtResult (filter (\<lambda>p. eq_data (snd p) \<noteq> None) (enumerate 0 eqs))"
proof (cases op)
  case (Receive i m)
  then have t: "ws_type m = ''final_insight'' \<or> ws_type m = ''final_recommendation''"
    and e: "ws_executed_queries m = Some eqs"
    using assms by (auto split: if_splits)
  from t show ?thesis
  proof
    assume fi: "ws_type m = ''final_insight''"
    then have "handleMessage i m st = on_final_insight i m st" by (simp add: handleMessage_def)
    then show ?thesis using Receive e by (simp add: queryResults_final_insight)
  next
    assume fr: "ws_type m = ''final_recommendation''"
    then have "handleMessage i m st = on_final_recommendation i m st" by (simp add: handleMessage_def)
    then show ?thesis using Receive e by (simp add: queryResults_final_recommendation)
  qed
qed (use assms in simp_all)

lemma count_one_of_distinct:
  "distinct (map f xs) \<Longrightarrow> t \<in> f ` set xs \<Longrightarrow> length (filter (\<lambda>x. f x = t) xs) = 1"
proof (induction xs)
  case Nil
  then show ?case by simp
next
  case (Cons x xs)
  show ?case
  proof (cases "f x = t")
    case True
    then have "t \<notin> f ` set xs" using Cons.prems by auto
    then have "filter (\<lambda>x. f x = t) xs = []" by (auto simp: filter_empty_conv)
    then show ?thesis using True by simp
  next
    case False
    then show ?thesis using Cons by auto
  qed
qed

lemma receiveAll_query_results:
  assumes "\<forall>im \<in> set ms. ws_type (snd im) = ''query_result'' \<and> ws_objective (snd im) = ob
             \<and> ws_query (snd im) = q \<and> ws_platform (snd im) = pf"
    and "unique_triples (queryResults st)"
  shows "unique_triples (queryResults (receiveAll ms st))
     \<and> (ms \<noteq> [] \<or> (or_default ob ''Unknown Objective'', or_default q ''Unknown Query'', pf)
                      \<in> triple ` set (queryResults st) \<longrightarrow>
        (or_default ob ''Unknown Objective'', or_default q ''Unknown Query'', pf)
          \<in> triple ` set (queryResults (receiveAll ms st)))"
  using assms
proof (induction ms arbitrary: st)
  case Nil
  then show ?case by (simp add: receiveAll_def)
next
  case (Cons im ms)
  have hm: "handleMessage (fst im) (snd im) st = on_query_result (snd im) st"
    using Cons.prems(1) by (simp add: handleMessage_def)
  have u: "unique_triples (queryResults (on_query_result (snd im) st))"
    using Cons.prems(2) by (rule unique_on_query_result)
  have t: "(or_default ob ''Unknown Objective'', or_default q ''Unknown Query'', pf)
             \<in> triple ` set (queryResults (on_query_result (snd im) st))"
    using triple_in_on_query_result [of "snd im" st] Cons.prems(1) by simp
  have rest: "\<forall>im \<in> set ms. ws_type (snd im) = ''query_result'' \<and> ws_objective (snd im) = ob
             \<and> ws_query (snd im) = q \<and> ws_platform (snd im) = pf"
    using Cons.prems(1) by simp
  have step: "receiveAll (im # ms) st = receiveAll ms (on_query_result (snd im) st)"
    by (simp add: receiveAll_def hm)
  show ?case using Cons.IH [OF rest u] t unfolding step by blast
qed

text \<open>
  C1, as the claim states it, fails: bulk processing installs the results it builds
  without comparing them, so a \<open>final_insight\<close> event whose \<open>executed_queries\<close> holds the
  same entry twice leaves two results with one triple.
\<close>

theorem C1_bulk_duplicates:
  "unique_triples (queryResults initialState)
   \<and> \<not> unique_triples (queryResults (apply_operation
        (Receive ''m1'' ((blankMessage ''final_insight'')
           \<lparr>ws_executed_queries := Some
              [\<lparr>eq_platform = Some ''google'', eq_objective = Some ''Q1'', eq_query = Some ''SELECT 1'',
                eq_data = Some [[(''a'', JNum 1)]]\<rparr>,
               \<lparr>eq_platform = Some ''google'', eq_objective = Some ''Q1'', eq_query = Some ''SELECT 1'',
                eq_data = Some [[(''a'', JNum 1)]]\<rparr>]\<rparr>))
        initialState))"
  by (simp add: unique_triples_def triple_def initialState_def blankMessage_def handleMessage_def
      on_final_insight_def handleExecutedQueries_def handleGraphSuggestions_def
      addMessageToChat_def Let_def)

text \<open>
  C1, amended: every operation of the state machine that does not process an
  \<open>executed_queries\<close> array in bulk preserves the invariant that no two results share
  their (objective, query, platform) triple; an operation that does installs exactly the
  results built from the array, whatever their triples. In particular, after a
  non-empty sequence of \<open>query_result\<close> events with one and the same triple, folded into
  a state that satisfies the invariant, the list holds exactly one result for that
  triple and satisfies the invariant.
\<close>

theorem C1_unique_triples:
  "(unique_triples (queryResults st) \<and> bulk_payload op = None \<longrightarrow>
      unique_triples (queryResults (apply_operation op st)))
   \<and> (\<forall>eqs. bulk_payload op = Some eqs \<longrightarrow>
        queryResults (apply_operation op st) =
          map builtResult (filter (\<lambda>p. eq_data (snd p) \<noteq> None) (enumerate 0 eqs)))
   \<and> (unique_triples (queryResults st) \<and> ms \<noteq> []
        \<and> (\<forall>im \<in> set ms. ws_type (snd im) = ''query_result'' \<and> ws_objective (snd im) = ob
               \<and> ws_query (snd im) = q \<and> ws_platform (snd im) = pf) \<longrightarrow>
        unique_triples (queryResults (receiveAll ms st))
        \<and> length (filter (\<lambda>qr. triple qr =
                     (or_default ob ''Unknown Objective'', or_default q ''Unknown Query'', pf))
                   (queryResults (receiveAll ms st))) = 1)"
proof (intro conjI allI impI)
  assume "unique_triples (queryResults st) \<and> bulk_payload op = None"
  then show "unique_triples (queryResults (apply_operation op st))"
    using unique_apply_operation by blast
next
  fix eqs assume "bulk_payload op = Some eqs"
  then show "queryResults (apply_operation op st) =
          map builtResult (filter (\<lambda>p. eq_data (snd p) \<noteq> None) (enumerate 0 eqs))"
    by (rule bulk_apply_operation)
next
  assume h: "unique_triples (queryResults st) \<and> ms \<noteq> []
        \<and> (\<forall>im \<in> set ms. ws_type (snd im) = ''query_result'' \<and> ws_objective (snd im) = ob
               \<and> ws_query (snd im) = q \<and> ws_platform (snd im) = pf)"
  then have r: "unique_triples (queryResults (receiveAll ms st))
      \<and> (or_default ob ''Unknown Objective'', or_default q ''Unknown Query'', pf)
          \<in> triple ` set (queryResults (receiveAll ms st))"
    using receiveAll_query_results [of ms ob q pf st] by blast
  then show "unique_triples (queryResults (receiveAll ms st))" by simp
  from r show "length (filter (\<lambda>qr. triple qr =
                     (or_default ob ''Unknown Objective'', or_default q ''Unknown Query'', pf))
                   (queryResults (receiveAll ms st))) = 1"
    unfolding unique_triples_def by (intro count_one_of_distinct) simp_all
qed

theorem C1_unique_triples_witness:
  "unique_triples (queryResults (initialState\<lparr>queryResults := [sampleResult]\<rparr>))
   \<and> bulk_payload (Receive ''i'' ((blankMessage ''query_result'')\<lparr>ws_objective := Some ''Q2''\<rparr>)) = None
   \<and> unique_triples (queryResults (apply_operation
         (Receive ''i'' ((blankMessage ''query_result'')\<lparr>ws_objective := Some ''Q2''\<rparr>))
         (initialState\<lparr>queryResults := [sampleResult]\<rparr>)))
   \<and> length (filter (\<lambda>qr. triple qr = (''Q2'', ''Unknown Query'', None))
        (queryResults (receiveAll
           [(''i'', (blankMessage ''query_result'')\<lparr>ws_objective := Some ''Q2''\<rparr>),
            (''j'', (blankMessage ''query_result'')\<lparr>ws_objective := Some ''Q2''\<rparr>)]
           (initialState\<lparr>queryResults := [sampleResult]\<rparr>)))) = 1
   \<and> bulk_payload (Receive ''k'' ((blankMessage ''final_recommendation'')
         \<lparr>ws_executed_queries := Some
            [\<lparr>eq_platform = Some ''google'', eq_objective = None, eq_query = None,
              eq_data = Some [[(''a'', JNum 1)]]\<rparr>]\<rparr>))
     = Some [\<lparr>eq_platform = Some ''google'', eq_objective = None, eq_query = None,
              eq_data = Some [[(''a'', JNum 1)]]\<rparr>]
   \<and> queryResults (apply_operation
         (Receive ''k'' ((blankMessage ''final_recommendation'')
            \<lparr>ws_executed_queries := Some
               [\<lparr>eq_platform = Some ''google'', eq_objective = None, eq_query = None,
                 eq_data = Some [[(''a'', JNum 1)]]\<rparr>]\<rparr>))
         (initialState\<lparr>queryResults := [sampleResult]\<rparr>))
     = [\<lparr>objective = ''Executed Query 1'', query = ''N/A'', dataframe = [[(''a'', JNum 1)]],
         error = None, platform = Some ''google''\<rparr>]"
  using C1_unique_triples [where st = "initialState\<lparr>queryResults := [sampleResult]\<rparr>"
      and op = "Receive ''i'' ((blankMessage ''query_result'')\<lparr>ws_objective := Some ''Q2''\<rparr>)"
      and ms = "[(''i'', (blankMessage ''query_result'')\<lparr>ws_objective := Some ''Q2''\<rparr>),
                 (''j'', (blankMessage ''query_result'')\<lparr>ws_objective := Some ''Q2''\<rparr>)]"
      and ob = "Some ''Q2''" and q = None and pf = None]
    C1_unique_triples [where st = "initialState\<lparr>queryResults := [sampleResult]\<rparr>"
      and op = "Receive ''k'' ((blankMessage ''final_recommendation'')
            \<lparr>ws_executed_queries := Some
               [\<lparr>eq_platform = Some ''google'', eq_objective = None, eq_query = None,
                 eq_data = Some [[(''a'', JNum 1)]]\<rparr>]\<rparr>)"
      and ms = "[]" and ob = None and q = None and pf = None]
  by (simp add: unique_triples_def triple_def sampleResult_def blankMessage_def builtResult_def
      string_of_nat_digit)

section \<open>What the viewer needs to plot\<close>







section \<open>Context-marked messages\<close>

lemma find_index_of_Some_iff:
  "find_index_of s pat = Some i \<longleftrightarrow>
     (i \<le> length s \<and> prefix pat (drop i s) \<and> (\<forall>j < i. \<not> prefix pat (drop j s)))"
proof (induction s arbitrary: i)
  case Nil
  then show ?case by auto
next
  case (Cons c cs)
  show ?case
  proof (cases "prefix pat (c # cs)")
    case True
    have "(i \<le> length (c # cs) \<and> prefix pat (drop i (c # cs))
            \<and> (\<forall>j < i. \<not> prefix pat (drop j (c # cs)))) \<longleftrightarrow> i = 0"
    proof
      assume h: "i \<le> length (c # cs) \<and> prefix pat (drop i (c # cs))
            \<and> (\<forall>j < i. \<not> prefix pat (drop j (c # cs)))"
      show "i = 0"
      proof (rule ccontr)
        assume "i \<noteq> 0"
        then have "0 < i" by simp
        then have "\<not> prefix pat (drop 0 (c # cs))" using h by blast
        then show False using True by simp
      qed
    next
      assume "i = 0"
      then show "i \<le> length (c # cs) \<and> prefix pat (drop i (c # cs))
            \<and> (\<forall>j < i. \<not> prefix pat (drop j (c # cs)))" using True by simp
    qed
    then show ?thesis using True by auto
  next
    case False
    have "(i \<le> length (c # cs) \<and> prefix pat (drop i (c # cs))
            \<and> (\<forall>j < i. \<not> prefix pat (drop j (c # cs))))
          \<longleftrightarrow> (\<exists>i'. i = Suc i' \<and> i' \<le> length cs \<and> prefix pat (drop i' cs)
                \<and> (\<forall>j < i'. \<not> prefix pat (drop j cs)))"
    proof
      assume h: "i \<le> length (c # cs) \<and> prefix pat (drop i (c # cs))
            \<and> (\<forall>j < i. \<not> prefix pat (drop j (c # cs)))"
      then obtain i' where i': "i = Suc i'" using False by (cases i) auto
      have "\<forall>j < i'. \<not> prefix pat (drop j cs)"
      proof (intro allI impI)
        fix j assume "j < i'"
        then have "Suc j < i" using i' by simp
        then have "\<not> prefix pat (drop (Suc j) (c # cs))" using h by blast
        then show "\<not> prefix pat (drop j cs)" by simp
      qed
      then show "\<exists>i'. i = Suc i' \<and> i' \<le> length cs \<and> prefix pat (drop i' cs)
                \<and> (\<forall>j < i'. \<not> prefix pat (drop j cs))" using h i' by auto
    next
      assume "\<exists>i'. i = Suc i' \<and> i' \<le> length cs \<and> prefix pat (drop i' cs)
                \<and> (\<forall>j < i'. \<not> prefix pat (drop j cs))"
      then obtain i' where i': "i = Suc i'" "i' \<le> length cs" "prefix pat (drop i' cs)"
        "\<forall>j < i'. \<not> prefix pat (drop j cs)" by blast
      have "\<forall>j < i. \<not> prefix pat (drop j (c # cs))"
      proof (intro allI impI)
        fix j assume jl: "j < i"
        show "\<not> prefix pat (drop j (c # cs))"
        proof (cases j)
          case 0
          then show ?thesis using False by simp
        next
          case (Suc j')
          then have "j' < i'" using jl i'(1) by simp
          then show ?thesis using i'(4) Suc by simp
        qed
      qed
      then show "i \<le> length (c # cs) \<and> prefix pat (drop i (c # cs))
            \<and> (\<forall>j < i. \<not> prefix pat (drop j (c # cs)))" using i' by simp
    qed
    then show ?thesis using False Cons.IH by auto
  qed
qed

lemma first_occurrence_find:
  "first_occurrence s pat pre post \<longleftrightarrow>
     (find_index_of s pat = Some (length pre) \<and> pre = take (length pre) s
      \<and> post = drop (length pre + length pat) s)"
proof
  assume h: "first_occurrence s pat pre post"
  then have s: "s = pre @ pat @ post" and f: "\<forall>j < length pre. \<not> prefix pat (drop j s)"
    unfolding first_occurrence_def by blast+
  have "prefix pat (drop (length pre) s)" using s by simp
  moreover have "length pre \<le> length s" using s by simp
  ultimately have "find_index_of s pat = Some (length pre)"
    using f by (simp add: find_index_of_Some_iff)
  moreover have "pre = take (length pre) s" using s by simp
  moreover have "post = drop (length pre + length pat) s" using s by simp
  ultimately show "find_index_of s pat = Some (length pre) \<and> pre = take (length pre) s
      \<and> post = drop (length pre + length pat) s" by blast
next
  assume h: "find_index_of s pat = Some (length pre) \<and> pre = take (length pre) s
      \<and> post = drop (length pre + length pat) s"
  then have p: "prefix pat (drop (length pre) s)" and f: "\<forall>j < length pre. \<not> prefix pat (drop j s)"
    by (simp_all add: find_index_of_Some_iff)
  from p obtain zs where zs: "drop (length pre) s = pat @ zs" by (auto simp: prefix_def)
  have "s = take (length pre) s @ drop (length pre) s" by simp
  then have s: "s = pre @ pat @ zs" using h zs by metis
  have "post = zs" using h s by (metis append_eq_conv_conj drop_drop add.commute)
  then show "first_occurrence s pat pre post" using s f by (simp add: first_occurrence_def)
qed

lemma includes_first_occurrence:
  "includes_str s pat \<longleftrightarrow> (\<exists>pre post. first_occurrence s pat pre post)"
proof
  assume "includes_str s pat"
  then obtain i where i: "find_index_of s pat = Some i" by (auto simp: includes_str_def)
  then have "i \<le> length s" by (simp add: find_index_of_Some_iff)
  then have "length (take i s) = i" by simp
  then have "first_occurrence s pat (take i s) (drop (i + length pat) s)"
    using i by (simp add: first_occurrence_find)
  then show "\<exists>pre post. first_occurrence s pat pre post" by blast
next
  assume "\<exists>pre post. first_occurrence s pat pre post"
  then show "includes_str s pat" by (auto simp: first_occurrence_find includes_str_def)
qed

lemma trim_Nil_iff: "trim s = [] \<longleftrightarrow> (\<forall>c \<in> set s. is_ws c)"
proof
  assume t: "trim s = []"
  show "\<forall>c \<in> set s. is_ws c"
  proof (rule ccontr)
    assume "\<not> (\<forall>c \<in> set s. is_ws c)"
    then have ne: "dropWhile is_ws s \<noteq> []" by (metis dropWhile_eq_Nil_conv)
    then have "\<not> is_ws (hd (dropWhile is_ws s))" by (rule hd_dropWhile)
    moreover have "hd (dropWhile is_ws s) \<in> set (rev (dropWhile is_ws s))" using ne by simp
    ultimately have "dropWhile is_ws (rev (dropWhile is_ws s)) \<noteq> []"
      by (metis dropWhile_eq_Nil_conv)
    then show False using t by (simp add: trim_def)
  qed
next
  assume "\<forall>c \<in> set s. is_ws c"
  then show "trim s = []" by (auto simp: trim_def dest: set_dropWhileD)
qed

lemma marked_not_blank:
  assumes "first_occurrence message queryStartMarker qpre qpost"
  shows "trim message \<noteq> []"
proof -
  have "message = qpre @ queryStartMarker @ qpost" using assms by (simp add: first_occurrence_def)
  then have "CHR ''-'' \<in> set message" by (simp add: queryStartMarker_def)
  moreover have "\<not> is_ws CHR ''-''" by (simp add: is_ws_def)
  ultimately show ?thesis by (auto simp: trim_Nil_iff)
qed

lemma parse_marked:
  assumes q: "first_occurrence message queryStartMarker qpre qpost"
    and c: "first_occurrence message displayContextStartMarker cpre cpost"
  shows "parseUserMessageWithContext cid message =
           (trim qpost,
            case find_index_of cpost displayContextEndMarker of
              None \<Rightarrow> None
            | Some e \<Rightarrow> if trim (take e cpost) = [] then None
                        else Some (newMessage cid ContextInfo (trim (take e cpost))))"
proof -
  have incl: "includes_str message displayContextStartMarker" "includes_str message queryStartMarker"
    using q c includes_first_occurrence by blast+
  have qi: "indexOf message queryStartMarker = int (length qpre)"
    and qp: "qpost = drop (length qpre + length queryStartMarker) message"
    using q by (simp_all add: first_occurrence_find indexOf_def)
  have ci: "indexOf message displayContextStartMarker = int (length cpre)"
    and cp: "cpost = drop (length cpre + length displayContextStartMarker) message"
    using c by (simp_all add: first_occurrence_find indexOf_def)
  let ?a = "length cpre + length displayContextStartMarker"
  have m: "message = cpre @ displayContextStartMarker @ cpost"
    using c by (simp add: first_occurrence_def)
  then have alen: "?a \<le> length message" by (metis length_append le_add1 add.assoc)
  have len: "length message = ?a + length cpost" using m by (metis length_append add.assoc)
  have user: "trim (substring_from message
                (indexOf message queryStartMarker + int (length queryStartMarker))) = trim qpost"
    unfolding qi qp substring_from_def by (simp add: nat_add_distrib)
  have sa: "nat (indexOf message displayContextStartMarker + int (length displayContextStartMarker)) = ?a"
    unfolding ci by (simp add: nat_add_distrib)
  show ?thesis
  proof (cases "find_index_of cpost displayContextEndMarker")
    case None
    then have "indexOf_from message displayContextEndMarker
                 (indexOf message displayContextStartMarker + int (length displayContextStartMarker)) = - 1"
      unfolding indexOf_from_def sa using alen cp by (simp add: min_absorb1)
    then show ?thesis using incl None user
      by (simp add: parseUserMessageWithContext_def Let_def)
  next
    case (Some e)
    then have ele: "e \<le> length cpost" by (simp add: find_index_of_Some_iff)
    have ix: "indexOf_from message displayContextEndMarker
                 (indexOf message displayContextStartMarker + int (length displayContextStartMarker))
              = int (?a + e)"
      unfolding indexOf_from_def sa using alen cp Some by (simp add: min_absorb1)
    have sub: "substring message
                 (indexOf message displayContextStartMarker + int (length displayContextStartMarker))
                 (int (?a + e)) = take e cpost"
    proof -
      have "min (nat (int (?a + e))) (length message) = ?a + e" using ele len by simp
      moreover have "min ?a (length message) = ?a" using alen by simp
      ultimately show ?thesis
        unfolding substring_def sa Let_def using cp by (simp add: min_absorb1 max_absorb2)
    qed
    have gt: "int (?a + e) > indexOf message displayContextStartMarker
                 + int (length displayContextStartMarker) \<longleftrightarrow> e > 0"
      unfolding ci by auto
    show ?thesis
    proof (cases "e > 0")
      case True
      then show ?thesis using incl Some user ix sub gt
        by (simp add: parseUserMessageWithContext_def Let_def)
    next
      case False
      then have "trim (take e cpost) = []" by (simp add: trim_def)
      then show ?thesis using incl Some user ix gt False
        by (simp add: parseUserMessageWithContext_def Let_def)
    qed
  qed
qed

text \<open>
  C5, as the claim states it, fails: the request sent to the backend carries the whole
  input, markers and context included, not the text after the query-start marker. Only
  the transcript shows that text.
\<close>

theorem C5_request_carries_whole_message:
  "map content (messages (fst (sendMessage OPEN ''c1'' ''u1'' scenarioMessage
       (initialState\<lparr>userId := Some ''user-7''\<rparr>))))
     = [content (hd (messages initialState)), ''Filtered to US'', ''show me US revenue'']
   \<and> map_option req_message (snd (sendMessage OPEN ''c1'' ''u1'' scenarioMessage
       (initialState\<lparr>userId := Some ''user-7''\<rparr>)))
     = Some scenarioMessage
   \<and> scenarioMessage \<noteq> ''show me US revenue''"
  by (simp add: sendMessage_def parseUserMessageWithContext_def includes_str_def indexOf_def
      indexOf_from_def substring_def substring_from_def trim_def is_ws_def newMessage_def
      displayContextStartMarker_def displayContextEndMarker_def queryStartMarker_def
      scenarioMessage_def initialState_def Let_def)

text \<open>
  C5, amended: for every input that contains both the DISPLAY_CONTEXT START marker and
  the QUERY START marker, sent while the channel is OPEN and the session identifier is
  known, \<open>sendMessage\<close> issues a request that carries the whole input unchanged, and
  appends a user entry whose content is the trimmed text after the first QUERY START
  marker. When a DISPLAY_CONTEXT END marker follows the first DISPLAY_CONTEXT START
  marker and the trimmed text between the two is not empty, that text is appended as a
  \<open>context_info\<close> entry immediately before the user entry; otherwise the user entry is
  the only one appended.
\<close>

theorem C5_context_marked_send:
  assumes "includes_str message displayContextStartMarker"
    and "includes_str message queryStartMarker"
    and "userId st = Some uid" and "uid \<noteq> []"
  shows "\<exists>qpre qpost cpre cpost.
      first_occurrence message queryStartMarker qpre qpost
    \<and> first_occurrence message displayContextStartMarker cpre cpost
    \<and> snd (sendMessage OPEN id1 id2 message st) = Some \<lparr>req_message = message, req_userId = uid\<rparr>
    \<and> (\<forall>ctx tail. first_occurrence cpost displayContextEndMarker ctx tail \<longrightarrow>
          fst (sendMessage OPEN id1 id2 message st) =
            st\<lparr>messages := messages st
                   @ (if trim ctx = [] then [] else [newMessage id1 ContextInfo (trim ctx)])
                   @ [newMessage id2 User (trim qpost)],
               queryResults := [], graphSuggestions := [],
               currentStatus := Some ''Thinking...'', isProcessing := True\<rparr>)
    \<and> (\<not> includes_str cpost displayContextEndMarker \<longrightarrow>
          fst (sendMessage OPEN id1 id2 message st) =
            st\<lparr>messages := messages st @ [newMessage id2 User (trim qpost)],
               queryResults := [], graphSuggestions := [],
               currentStatus := Some ''Thinking...'', isProcessing := True\<rparr>)"
proof -
  obtain qpre qpost where q: "first_occurrence message queryStartMarker qpre qpost"
    using assms(2) includes_first_occurrence by blast
  obtain cpre cpost where c: "first_occurrence message displayContextStartMarker cpre cpost"
    using assms(1) includes_first_occurrence by blast
  have nb: "trim message \<noteq> []" using q by (rule marked_not_blank)
  have p: "parseUserMessageWithContext id1 message =
           (trim qpost,
            case find_index_of cpost displayContextEndMarker of
              None \<Rightarrow> None
            | Some e \<Rightarrow> if trim (take e cpost) = [] then None
                        else Some (newMessage id1 ContextInfo (trim (take e cpost))))"
    using q c by (rule parse_marked)
  have req: "snd (sendMessage OPEN id1 id2 message st) = Some \<lparr>req_message = message, req_userId = uid\<rparr>"
    using assms(3,4) nb by (simp add: sendMessage_def Let_def split: prod.splits)
  have with_end: "fst (sendMessage OPEN id1 id2 message st) =
            st\<lparr>messages := messages st
                   @ (if trim ctx = [] then [] else [newMessage id1 ContextInfo (trim ctx)])
                   @ [newMessage id2 User (trim qpost)],
               queryResults := [], graphSuggestions := [],
               currentStatus := Some ''Thinking...'', isProcessing := True\<rparr>"
    if e: "first_occurrence cpost displayContextEndMarker ctx tail" for ctx tail
  proof -
    have "find_index_of cpost displayContextEndMarker = Some (length ctx)"
      and "ctx = take (length ctx) cpost"
      using e by (simp_all add: first_occurrence_find)
    then show ?thesis using assms(3,4) nb p
      by (simp add: sendMessage_def Let_def)
  qed
  have without_end: "fst (sendMessage OPEN id1 id2 message st) =
            st\<lparr>messages := messages st @ [newMessage id2 User (trim qpost)],
               queryResults := [], graphSuggestions := [],
               currentStatus := Some ''Thinking...'', isProcessing := True\<rparr>"
    if "\<not> includes_str cpost displayContextEndMarker"
  proof -
    have "find_index_of cpost displayContextEndMarker = None"
      using that by (simp add: includes_str_def)
    then show ?thesis using assms(3,4) nb p
      by (simp add: sendMessage_def Let_def)
  qed
  show ?thesis using q c req with_end without_end by blast
qed

theorem C5_context_marked_send_witness:
  "includes_str scenarioMessage displayContextStartMarker
   \<and> includes_str scenarioMessage queryStartMarker
   \<and> sendMessage OPEN ''c1'' ''u1'' scenarioMessage (initialState\<lparr>userId := Some ''user-7''\<rparr>)
     = (initialState\<lparr>userId := Some ''user-7'',
          messages := messages initialState
             @ [newMessage ''c1'' ContextInfo ''Filtered to US'',
                newMessage ''u1'' User ''show me US revenue''],
          queryResults := [], graphSuggestions := [],
          currentStatus := Some ''Thinking...'', isProcessing := True\<rparr>,
        Some \<lparr>req_message = scenarioMessage, req_userId = ''user-7''\<rparr>)
   \<and> includes_str ''---DISPLAY_CONTEXT START---US only---QUERY START--- revenue?''
         displayContextStartMarker
   \<and> includes_str ''---DISPLAY_CONTEXT START---US only---QUERY START--- revenue?''
         queryStartMarker
   \<and> sendMessage OPEN ''c1'' ''u1'' ''---DISPLAY_CONTEXT START---US only---QUERY START--- revenue?''
        (initialState\<lparr>userId := Some ''user-7''\<rparr>)
     = (initialState\<lparr>userId := Some ''user-7'',
          messages := messages initialState @ [newMessage ''u1'' User ''revenue?''],
          queryResults := [], graphSuggestions := [],
          currentStatus := Some ''Thinking...'', isProcessing := True\<rparr>,
        Some \<lparr>req_message = ''---DISPLAY_CONTEXT START---US only---QUERY START--- revenue?'',
              req_userId = ''user-7''\<rparr>)"
  using C5_context_marked_send [of scenarioMessage "initialState\<lparr>userId := Some ''user-7''\<rparr>"
      "''user-7''" "''c1''" "''u1''"]
    C5_context_marked_send [of "''---DISPLAY_CONTEXT START---US only---QUERY START--- revenue?''"
      "initialState\<lparr>userId := Some ''user-7''\<rparr>" "''user-7''" "''c1''" "''u1''"]
  by (simp add: sendMessage_def parseUserMessageWithContext_def includes_str_def indexOf_def
      indexOf_from_def substring_def substring_from_def trim_def is_ws_def newMessage_def
      displayContextStartMarker_def displayContextEndMarker_def queryStartMarker_def
      scenarioMessage_def initialState_def Let_def)

section \<open>Chart normalization\<close>








lemma assignRole_object:
  "assignRole k v (is_string v) (Inr (ColumnsObject kvs)) = Inr (ColumnsObject (withFlatRole k v kvs))"
  by (simp add: assignRole_def withFlatRole_def split: option.splits)








text \<open>
  C8 says that normalization copies each of the roles \<open>x\<close>, \<open>y\<close>, \<open>names\<close>, \<open>values\<close> and
  \<open>color\<close> into the \<open>columns\<close> object from whichever shape carried it. The code does not
  do so for a pie suggestion whose roles \<open>names\<close>, \<open>values\<close> and \<open>color\<close> arrive nested
  under \<open>columns\<close>: \<open>mapSuggestion\<close> copies only \<open>x\<close> and \<open>y\<close> out of \<open>columns\<close> and drops
  the rest of it, so the normalized \<open>columns\<close> object is empty, while the same roles
  given flat are all copied.
\<close>

theorem C8_nested_pie_roles_dropped:
  "normalizeSuggestion
     [(''objective'', JStr ''Q1''), (''type'', JStr ''pie''),
      (''columns'', JObj [(''names'', JStr ''category''), (''values'', JStr ''amount''),
                          (''color'', JStr ''region'')])]
   = Inr (Some (Plotly \<lparr>pc_type = Some (JStr ''pie''), pc_title = None, pc_description = None,
                         pc_columns = ColumnsObject [],
                         pc_rest = [(''objective'', JStr ''Q1'')]\<rparr>))
   \<and> normalizeSuggestion
     [(''objective'', JStr ''Q1''), (''type'', JStr ''pie''),
      (''names'', JStr ''category''), (''values'', JStr ''amount''), (''color_column'', JStr ''region'')]
   = Inr (Some (Plotly \<lparr>pc_type = Some (JStr ''pie''), pc_title = None, pc_description = None,
                         pc_columns = ColumnsObject
                           [(''names'', JStr ''category''), (''values'', JStr ''amount''),
                            (''color'', JStr ''region'')],
                         pc_rest = [(''objective'', JStr ''Q1'')]\<rparr>))"
  by (simp add: normalizeSuggestion_def finalGraphSuggestionForViewer_def mapSuggestion_def
      initialColumns_def assignRole_def destructuredKeys_def Let_def)

end
